theory Spec2Isabelle
  imports Main
begin

section \<open>Python values and errors\<close>

text \<open>
  The annotation data comes from a JSON document, so a number is a Python \<open>int\<close>
  (unbounded) or a Python \<open>float\<close>. \<open>PyFloat m e\<close> is the double of value
  \<open>m * 2 ^ e\<close>, kept normalised (\<open>m\<close> odd, or \<open>m = 0\<close> and \<open>e = 0\<close>).
  The arithmetic below rounds every float result to the nearest double (53 bit
  significand, ties to even). Infinities, NaN, negative zero and subnormal numbers are
  outside the model: the exponent is unbounded.
\<close>

datatype pynum = PyInt int | PyFloat int int

datatype pykey = KStr string | KInt int

text \<open>The exceptions the modelled code raises, as values.\<close>

datatype error =
    KeyError pykey
  | IndexError
  | ValueError
  | TypeError
  | AttributeError
  | ZeroDivisionError
  | NotImplementedError
  | NotADirectoryError string
  | Exception string

subsection \<open>Float arithmetic\<close>

text \<open>Python's \<open>int.bit_length\<close>, on a non-negative integer.\<close>

function bit_length :: "int \<Rightarrow> int" where
  "bit_length n = (if n \<le> 0 then 0 else 1 + bit_length (n div 2))"
  by pat_completeness auto
termination
  by (relation "measure nat") auto

declare bit_length.simps [simp del]

text \<open>\<open>shl x k\<close> is \<open>x * 2 ^ k\<close> for a positive \<open>k\<close>, and \<open>x\<close> otherwise.\<close>

definition shl :: "int \<Rightarrow> int \<Rightarrow> int" where
  "shl x k = (if 0 < k then x * 2 ^ nat k else x)"

text \<open>The quotient \<open>p / q\<close> (\<open>0 \<le> p\<close>, \<open>0 < q\<close>) rounded to an integer, ties to even.\<close>

definition round_half_even :: "int \<Rightarrow> int \<Rightarrow> int" where
  "round_half_even p q =
     (let f = p div q; r = p mod q
      in if 2 * r < q then f else if q < 2 * r then f + 1
         else if even f then f else f + 1)"

function normalize_float :: "int \<Rightarrow> int \<Rightarrow> pynum" where
  "normalize_float m e =
     (if m = 0 then PyFloat 0 0
      else if even m then normalize_float (m div 2) (e + 1)
      else PyFloat m e)"
  by pat_completeness auto
termination
  by (relation "measure (\<lambda>(m, e). nat \<bar>m\<bar>)") auto

declare normalize_float.simps [simp del]

text \<open>
  The double nearest to \<open>p / q\<close> (\<open>0 < q\<close>): the binade \<open>e\<close> with
  \<open>2 ^ e \<le> |p / q| < 2 ^ (e + 1)\<close> is found from the bit lengths, and the quotient is
  rounded to a 53 bit significand.
\<close>

definition round_double :: "int \<Rightarrow> int \<Rightarrow> pynum" where
  "round_double p q =
     (if p = 0 then PyFloat 0 0
      else let a = \<bar>p\<bar>;
               k = bit_length a - bit_length q;
               e = (if shl q k \<le> shl a (- k) then k else k - 1);
               s = e - 52;
               m = round_half_even (shl a (- s)) (shl q s)
           in normalize_float (sgn p * m) s)"

text \<open>\<open>float(x)\<close>, as significand and exponent.\<close>

fun to_float :: "pynum \<Rightarrow> int \<times> int" where
  "to_float (PyFloat m e) = (m, e)"
| "to_float (PyInt i) =
     (case round_double i 1 of PyFloat m e \<Rightarrow> (m, e) | PyInt j \<Rightarrow> (j, 0))"

fun is_zero :: "pynum \<Rightarrow> bool" where
  "is_zero (PyInt i) = (i = 0)"
| "is_zero (PyFloat m e) = (m = 0)"

text \<open>\<open>a + b\<close> and \<open>a - b\<close>: exact on two ints, rounded to a double otherwise.\<close>

definition float_add :: "int \<times> int \<Rightarrow> int \<times> int \<Rightarrow> pynum" where
  "float_add x y =
     (case (x, y) of ((m1, e1), (m2, e2)) \<Rightarrow>
        let e = min e1 e2; p = shl m1 (e1 - e) + shl m2 (e2 - e)
        in round_double (shl p e) (shl 1 (- e)))"

fun py_add :: "pynum \<Rightarrow> pynum \<Rightarrow> pynum" where
  "py_add (PyInt i) (PyInt j) = PyInt (i + j)"
| "py_add a b = float_add (to_float a) (to_float b)"

fun py_neg :: "pynum \<Rightarrow> pynum" where
  "py_neg (PyInt i) = PyInt (- i)"
| "py_neg (PyFloat m e) = PyFloat (- m) e"

definition py_sub :: "pynum \<Rightarrow> pynum \<Rightarrow> pynum" where
  "py_sub a b = py_add a (py_neg b)"

text \<open>
  \<open>a / b\<close>, Python's true division: \<open>ZeroDivisionError\<close> on a zero divisor (int or
  float), the correctly rounded quotient otherwise.
\<close>

definition float_div :: "int \<times> int \<Rightarrow> int \<times> int \<Rightarrow> pynum" where
  "float_div x y =
     (case (x, y) of ((m1, e1), (m2, e2)) \<Rightarrow>
        round_double (shl (m1 * sgn m2) (e1 - e2)) (shl \<bar>m2\<bar> (e2 - e1)))"

fun py_truediv :: "pynum \<Rightarrow> pynum \<Rightarrow> error + pynum" where
  "py_truediv (PyInt i) (PyInt j) =
     (if j = 0 then Inl ZeroDivisionError else Inr (round_double (i * sgn j) \<bar>j\<bar>))"
| "py_truediv a b =
     (if is_zero b then Inl ZeroDivisionError
      else Inr (float_div (to_float a) (to_float b)))"

subsection \<open>Strings and lists\<close>

text \<open>\<open>str(n)\<close> for an integer; \<open>str_nat\<close> is the case of a non-negative one.\<close>

function str_nat :: "int \<Rightarrow> string" where
  "str_nat n =
     (if n < 10 then [''0123456789'' ! nat n]
      else str_nat (n div 10) @ [''0123456789'' ! nat (n mod 10)])"
  by pat_completeness auto
termination
  by (relation "measure nat") auto

declare str_nat.simps [simp del]

definition str_int :: "int \<Rightarrow> string" where
  "str_int i = (if i < 0 then ''-'' @ str_nat (- i) else str_nat i)"

text \<open>
  \<open>'%.6f' % x\<close>: the value is converted to a double, and the double's exact value
  is rounded to six decimals, ties to even; a negative value keeps its sign.
\<close>

definition format_6f :: "pynum \<Rightarrow> string" where
  "format_6f x =
     (case to_float x of (m, e) \<Rightarrow>
        let n = round_half_even (shl (\<bar>m\<bar> * 1000000) e) (shl 1 (- e));
            frac = str_nat (n mod 1000000)
        in (if m < 0 then ''-'' else []) @ str_nat (n div 1000000) @ ''.''
           @ replicate (6 - length frac) (CHR ''0'') @ frac)"

text \<open>\<open>sep.join(xs)\<close>.\<close>

fun join :: "string \<Rightarrow> string list \<Rightarrow> string" where
  "join sep [] = []"
| "join sep [x] = x"
| "join sep (x # y # ys) = x @ sep @ join sep (y # ys)"

definition endswith :: "string \<Rightarrow> string \<Rightarrow> bool" where
  "endswith s suffix =
     (length suffix \<le> length s \<and> drop (length s - length suffix) s = suffix)"

definition startswith :: "string \<Rightarrow> string \<Rightarrow> bool" where
  "startswith s pre = (take (length pre) s = pre)"

text \<open>
  \<open>split_first sep s\<close> cuts \<open>s\<close> at the first occurrence of a non-empty
  \<open>sep\<close>; \<open>s.rsplit(sep, maxsplit=1)\<close> cuts at the last one, which is the first
  occurrence of the reversed separator in the reversed string.
\<close>

fun split_first :: "string \<Rightarrow> string \<Rightarrow> (string \<times> string) option" where
  "split_first sep [] = None"
| "split_first sep (c # cs) =
     (if startswith (c # cs) sep then Some ([], drop (length sep) (c # cs))
      else case split_first sep cs of
             None \<Rightarrow> None
           | Some (a, b) \<Rightarrow> Some (c # a, b))"

definition rsplit1 :: "string \<Rightarrow> string \<Rightarrow> string list" where
  "rsplit1 s sep =
     (case split_first (rev sep) (rev s) of
        None \<Rightarrow> [s]
      | Some (a, b) \<Rightarrow> [rev b, rev a])"

text \<open>\<open>os.path.join(a, b)\<close>, \<open>os.path.basename\<close> and \<open>os.path.splitext\<close> (POSIX).\<close>

definition osp_join :: "string \<Rightarrow> string \<Rightarrow> string" where
  "osp_join a b =
     (if b \<noteq> [] \<and> startswith b ''/'' then b
      else if a = [] \<or> endswith a ''/'' then a @ b
      else a @ ''/'' @ b)"

definition basename :: "string \<Rightarrow> string" where
  "basename p = last (rsplit1 p ''/'')"

text \<open>
  \<open>splitext\<close> cuts at the last dot of the last path component, unless only dots
  stand before it in that component (leading dots are not an extension).
\<close>

definition splitext :: "string \<Rightarrow> string \<times> string" where
  "splitext p =
     (let name = basename p; dir = take (length p - length name) p
      in case split_first ''.'' (rev name) of
           None \<Rightarrow> (p, [])
         | Some (ext_rev, root_rev) \<Rightarrow>
             if list_all (\<lambda>c. c = CHR ''.'') root_rev then (p, [])
             else (dir @ rev root_rev, ''.'' @ rev ext_rev))"

text \<open>Indexing a list as Python does: negative indices count from the end.\<close>

definition py_index :: "'a list \<Rightarrow> int \<Rightarrow> error + 'a" where
  "py_index xs i =
     (if 0 \<le> i \<and> i < int (length xs) then Inr (xs ! nat i)
      else if i < 0 \<and> - int (length xs) \<le> i then Inr (xs ! nat (int (length xs) + i))
      else Inl IndexError)"

section \<open>Formats: the task vocabulary\<close>

text \<open>
  Modelled from the spec: the enumeration \<open>CocoTask\<close> of
  \<open>datumaro.components.formats.ms_coco\<close> is imported by the sources and not part
  of them. The spec gives the task vocabulary as
  \<open>{instances, person_keypoints, captions, labels, image_info}\<close>.
\<close>

datatype CocoTask = instances | person_keypoints | captions | labels | image_info

section \<open>Annotation model\<close>

text \<open>
  A run-length encoding as the code holds it: a dictionary with the keys \<open>size\<close>
  and \<open>counts\<close>. The counts are a list of integers (uncompressed, from JSON), a
  string (compressed, from JSON) or a byte string (compressed, from the RLE library).
  Python compares such dictionaries structurally, and a byte string never equals a
  string.
\<close>

datatype rle_counts = CountsList "int list" | CountsStr string | CountsBytes string

record rle_obj =
  rle_size :: "int list"
  rle_counts :: rle_counts

datatype attr_value = AttrBool bool | AttrNum pynum

type_synonym attributes = "(string \<times> attr_value) list"

text \<open>
  Modelled from the spec: the annotation classes of \<open>datumaro.components.extractor\<close>
  are imported by the sources and not part of them. Every annotation carries an optional
  \<open>id\<close>, an optional \<open>label\<close>, an optional \<open>group\<close> and an attribute
  dictionary. \<open>RleMask\<close> is the class of the source: a mask that stores its RLE and
  decodes the pixel array on demand.
\<close>

datatype annotation =
    LabelObject (label: "int option") (ann_id: "int option")
      (attributes: attributes) (ann_group: "int option")
  | BboxObject (points: "pynum list") (label: "int option") (ann_id: "int option")
      (attributes: attributes) (ann_group: "int option")
  | PolygonObject (points: "pynum list") (label: "int option") (ann_id: "int option")
      (attributes: attributes) (ann_group: "int option")
  | PointsObject (points: "pynum list") (visibility: "pynum list")
      (label: "int option") (ann_id: "int option")
      (attributes: attributes) (ann_group: "int option")
  | CaptionObject (caption: string) (ann_id: "int option")
      (attributes: attributes) (ann_group: "int option")
  | MaskObject (image_array: "bool list list") (label: "int option") (ann_id: "int option")
      (attributes: attributes) (ann_group: "int option")
  | RleMask (rle: rle_obj) (label: "int option") (ann_id: "int option")
      (attributes: attributes) (ann_group: "int option")

datatype AnnotationType = T_label | T_bbox | T_polygon | T_points | T_caption | T_mask

fun ann_type_of :: "annotation \<Rightarrow> AnnotationType" where
  "ann_type_of (LabelObject _ _ _ _) = T_label"
| "ann_type_of (BboxObject _ _ _ _ _) = T_bbox"
| "ann_type_of (PolygonObject _ _ _ _ _) = T_polygon"
| "ann_type_of (PointsObject _ _ _ _ _ _) = T_points"
| "ann_type_of (CaptionObject _ _ _ _) = T_caption"
| "ann_type_of (MaskObject _ _ _ _ _) = T_mask"
| "ann_type_of (RleMask _ _ _ _ _) = T_mask"

text \<open>
  The pixel array of a mask. For an \<open>RleMask\<close> it is
  \<open>mask_utils.decode(rle)\<close>, evaluated at each access; \<open>decode\<close> belongs to the
  RLE library and is a parameter here.
\<close>

fun mask_image :: "(rle_obj \<Rightarrow> bool list list) \<Rightarrow> annotation \<Rightarrow> bool list list" where
  "mask_image decode (RleMask r _ _ _ _) = decode r"
| "mask_image decode (MaskObject img _ _ _ _) = img"
| "mask_image decode _ = []"

text \<open>
  Modelled from the spec: \<open>MaskObject.__eq__\<close>, the inherited comparison, is not part
  of the sources. The spec says that equality is structural per variant: the same kind,
  the same common fields and the same pixel array.
\<close>

definition MaskObject_eq ::
  "(rle_obj \<Rightarrow> bool list list) \<Rightarrow> annotation \<Rightarrow> annotation \<Rightarrow> bool" where
  "MaskObject_eq decode self other =
     (ann_type_of self = ann_type_of other \<and> ann_id self = ann_id other
      \<and> attributes self = attributes other \<and> ann_group self = ann_group other
      \<and> label self = label other
      \<and> mask_image decode self = mask_image decode other)"

fun is_RleMask :: "annotation \<Rightarrow> bool" where
  "is_RleMask (RleMask _ _ _ _ _) = True"
| "is_RleMask _ = False"

text \<open>
  \<open>RleMask.__eq__\<close>: against anything that is not an \<open>RleMask\<close> the inherited
  comparison decides; two \<open>RleMask\<close>s compare their stored RLE dictionaries.
\<close>

definition RleMask_eq ::
  "(rle_obj \<Rightarrow> bool list list) \<Rightarrow> annotation \<Rightarrow> annotation \<Rightarrow> bool" where
  "RleMask_eq decode self other =
     (if \<not> is_RleMask other then MaskObject_eq decode self other
      else rle self = rle other)"

text \<open>
  Modelled from the spec: the constructor of \<open>BboxObject\<close> is not part of the sources.
  It takes \<open>(x, y, w, h)\<close>; the converters read \<open>points\<close> as the two corners
  \<open>[x, y, x + w, y + h]\<close> (the spec's scenario computes the centre of the box
  \<open>[10, 10, 20, 20]\<close> as \<open>(10 + 30) / 2\<close>).
\<close>

definition BboxObject_init ::
  "pynum \<Rightarrow> pynum \<Rightarrow> pynum \<Rightarrow> pynum \<Rightarrow> int option \<Rightarrow> int option \<Rightarrow> attributes
     \<Rightarrow> int option \<Rightarrow> annotation" where
  "BboxObject_init x y w h lbl i attrs grp =
     BboxObject [x, y, py_add x w, py_add y h] lbl i attrs grp"

section \<open>The COCO document and its loader\<close>

text \<open>
  The records of a COCO annotation file. A key read with \<open>ann.get\<close> or with
  \<open>ann[...]\<close> is an optional field: \<open>None\<close> is the absent key (a JSON \<open>null\<close>
  is not told apart from it).
\<close>

datatype segmentation = SegPolygons "pynum list list" | SegRle rle_obj

record coco_ann =
  a_id :: "int option"
  a_score :: "pynum option"
  a_bbox :: "pynum list option"
  a_category_id :: "int option"
  a_iscrowd :: "int option"
  a_segmentation :: "segmentation option"
  a_keypoints :: "pynum list option"
  a_caption :: "string option"

record coco_image =
  img_file_name :: string
  img_height :: int
  img_width :: int

record coco_category =
  cat_id :: int
  cat_name :: string
  cat_supercategory :: string
  cat_keypoints :: "string list"
  cat_skeleton :: "int list list"

text \<open>
  The COCO API object (\<open>pycocotools.coco.COCO\<close>) is an external library. A loader is
  modelled by what the calls of the extractor return: \<open>getImgIds()\<close>, the image
  index behind \<open>loadImgs\<close>, \<open>loadAnns(getAnnIds(imgIds=img_id))\<close> and
  \<open>loadCats(getCatIds())\<close>.
\<close>

record loader =
  getImgIds :: "int list"
  imgs :: "int \<Rightarrow> coco_image option"
  imgToAnns :: "int \<Rightarrow> coco_ann list"
  cats :: "coco_category list"

text \<open>
  The RLE library (\<open>pycocotools.mask\<close>), a trusted primitive: the two calls of
  the extractor are parameters. Either may raise.
\<close>

datatype pyobj = PolyObjs "pynum list list" | RleObjs "rle_obj list"

record mask_utils =
  frPyObjects :: "pyobj \<Rightarrow> int \<Rightarrow> int \<Rightarrow> error + rle_obj list"
  merge :: "rle_obj list \<Rightarrow> error + rle_obj"

section \<open>Category tables\<close>

text \<open>
  Modelled from the spec: \<open>LabelCategories\<close> and \<open>PointsCategories\<close> are not part
  of the sources. The label table is an ordered, index-addressed table of
  \<open>(name, parent)\<close> pairs, \<open>add\<close> appends, and \<open>find\<close> looks a name up:
  duplicate names shadow silently (the last one added wins), and a person-keypoints
  category whose name is not in the label table is an error. The points table holds,
  per category, the label id, the keypoint names and the skeleton.
\<close>

type_synonym LabelCategories = "(string \<times> string) list"

type_synonym PointsCategories = "(int \<times> string list \<times> int list list) list"

definition find_label :: "LabelCategories \<Rightarrow> string \<Rightarrow> error + int" where
  "find_label items name =
     (case filter (\<lambda>i. fst (items ! i) = name) (rev [0..<length items]) of
        [] \<Rightarrow> Inl (KeyError (KStr name))
      | i # _ \<Rightarrow> Inr (int i))"

record categories =
  cat_label :: "LabelCategories option"
  cat_points :: "PointsCategories option"

text \<open>
  \<open>_load_label_categories\<close>: one table entry per category in the loader's order, and
  the map from the category id to the index of the entry (a later category of the same id
  overwrites the earlier one).
\<close>

definition load_label_categories :: "loader \<Rightarrow> LabelCategories \<times> (int \<Rightarrow> int option)" where
  "load_label_categories ld =
     (map (\<lambda>cat. (cat_name cat, cat_supercategory cat)) (cats ld),
      fold (\<lambda>(idx, cat) m. m(cat_id cat \<mapsto> int idx)) (enumerate 0 (cats ld)) Map.empty)"

text \<open>\<open>_load_person_kp_categories\<close>, against the label table already built.\<close>

fun load_person_kp_cats :: "LabelCategories \<Rightarrow> coco_category list \<Rightarrow> error + PointsCategories" where
  "load_person_kp_cats label_cats [] = Inr []"
| "load_person_kp_cats label_cats (cat # rest) =
     (case find_label label_cats (cat_name cat) of
        Inl e \<Rightarrow> Inl e
      | Inr label_id \<Rightarrow>
          (case load_person_kp_cats label_cats rest of
             Inl e \<Rightarrow> Inl e
           | Inr tbl \<Rightarrow> Inr ((label_id, cat_keypoints cat, cat_skeleton cat) # tbl)))"

definition load_person_kp_categories :: "LabelCategories \<Rightarrow> loader \<Rightarrow> error + PointsCategories" where
  "load_person_kp_categories label_cats ld = load_person_kp_cats label_cats (cats ld)"

section \<open>The extractor\<close>

text \<open>
  A subset holds its loaders by task (a dictionary, in insertion order) and its image ids
  (the keys of an ordered dictionary).
\<close>

record Subset =
  subset_name :: string
  loaders :: "(CocoTask \<times> loader) list"
  items :: "int list"

record CocoExtractor =
  ex_path :: string
  ex_task :: CocoTask
  ex_subsets :: "(string \<times> Subset) list"
  ex_categories :: categories
  ex_label_map :: "(int \<Rightarrow> int option) option"
  ex_merge_instance_polygons :: bool

text \<open>
  The first loop of \<open>_load_categories\<close>: the loaders of all subsets in one dictionary,
  a later subset overwriting an earlier one.
\<close>

definition merge_loaders :: "Subset list \<Rightarrow> CocoTask \<Rightarrow> loader option" where
  "merge_loaders subsets = fold (\<lambda>s m. m ++ map_of (loaders s)) subsets Map.empty"

text \<open>
  \<open>_load_categories\<close>: the label table comes from the \<open>labels\<close> loader, else from the
  \<open>instances\<close> loader, else from the \<open>person_keypoints\<close> loader; the points table
  from the \<open>person_keypoints\<close> loader. The result is the category dictionary and
  \<open>_label_map\<close>, which is only set when a label loader exists.
\<close>

definition load_categories ::
  "Subset list \<Rightarrow> error + (categories \<times> (int \<Rightarrow> int option) option)" where
  "load_categories subsets =
     (let lds = merge_loaders subsets;
          label_loader = lds labels;
          instances_loader = lds instances;
          person_kp_loader = lds person_keypoints;
          label_loader = (if Option.is_none label_loader \<and> \<not> Option.is_none instances_loader
                          then instances_loader else label_loader);
          label_loader = (if Option.is_none label_loader \<and> \<not> Option.is_none person_kp_loader
                          then person_kp_loader else label_loader);
          label_part = map_option load_label_categories label_loader
      in case person_kp_loader of
           None \<Rightarrow>
             Inr (\<lparr>cat_label = map_option fst label_part, cat_points = None\<rparr>,
                  map_option snd label_part)
         | Some kp \<Rightarrow>
             (case label_part of
                None \<Rightarrow> Inl (KeyError (KStr ''label''))
              | Some (label_cats, label_map) \<Rightarrow>
                  (case load_person_kp_categories label_cats kp of
                     Inl e \<Rightarrow> Inl e
                   | Inr tbl \<Rightarrow>
                       Inr (\<lparr>cat_label = Some label_cats, cat_points = Some tbl\<rparr>,
                            Some label_map))))"

text \<open>
  \<open>_parse_label\<close>: no label for the category id 0 or an absent one; otherwise the
  index the table gives, and \<open>KeyError\<close> for an id the table does not have.
\<close>

definition parse_label :: "(int \<Rightarrow> int option) option \<Rightarrow> coco_ann \<Rightarrow> error + int option" where
  "parse_label label_map ann =
     (case a_category_id ann of
        None \<Rightarrow> Inr None
      | Some c \<Rightarrow>
          if c = 0 then Inr None
          else (case label_map of
                  None \<Rightarrow> Inl AttributeError
                | Some m \<Rightarrow>
                    (case m c of
                       None \<Rightarrow> Inl (KeyError (KInt c))
                     | Some idx \<Rightarrow> Inr (Some idx))))"

text \<open>Unpacking a list into two and into four names.\<close>

fun unpack2 :: "'a list \<Rightarrow> error + ('a \<times> 'a)" where
  "unpack2 [a, b] = Inr (a, b)"
| "unpack2 _ = Inl ValueError"

fun unpack4 :: "'a list \<Rightarrow> error + ('a \<times> 'a \<times> 'a \<times> 'a)" where
  "unpack4 [a, b, c, d] = Inr (a, b, c, d)"
| "unpack4 _ = Inl ValueError"

text \<open>
  The attribute dictionary of a record: the score when the record has one. The
  \<open>instances\<close> branch adds \<open>is_crowd\<close>.
\<close>

definition score_attributes :: "coco_ann \<Rightarrow> attributes" where
  "score_attributes ann =
     (case a_score ann of None \<Rightarrow> [] | Some s \<Rightarrow> [(''score'', AttrNum s)])"

definition crowd_attributes :: "coco_ann \<Rightarrow> int \<Rightarrow> attributes" where
  "crowd_attributes ann crowd =
     score_attributes ann @ [(''is_crowd'', AttrBool (crowd \<noteq> 0))]"

text \<open>
  The variable \<open>rle\<close> of the \<open>instances\<close> branch, for a record that has a
  segmentation: the merged RLE of the polygons when merging is enabled and none
  otherwise, the compressed form of an uncompressed RLE, or the compressed RLE itself.
\<close>

definition instances_rle ::
  "mask_utils \<Rightarrow> bool \<Rightarrow> coco_image option \<Rightarrow> segmentation \<Rightarrow> error + rle_obj option" where
  "instances_rle mu merge_instance_polygons img_info seg =
     (case seg of
        SegPolygons polys \<Rightarrow>
          if merge_instance_polygons then
            (case img_info of
               None \<Rightarrow> Inl TypeError
             | Some info \<Rightarrow>
                 (case frPyObjects mu (PolyObjs polys) (img_height info) (img_width info) of
                    Inl e \<Rightarrow> Inl e
                  | Inr rles \<Rightarrow>
                      (case merge mu rles of Inl e \<Rightarrow> Inl e | Inr r \<Rightarrow> Inr (Some r))))
          else Inr None
      | SegRle d \<Rightarrow>
          (case rle_counts d of
             CountsList _ \<Rightarrow>
               (case unpack2 (rle_size d) of
                  Inl e \<Rightarrow> Inl e
                | Inr (img_h, img_w) \<Rightarrow>
                    (case frPyObjects mu (RleObjs [d]) img_h img_w of
                       Inl e \<Rightarrow> Inl e
                     | Inr rles \<Rightarrow>
                         (case py_index rles 0 of Inl e \<Rightarrow> Inl e | Inr r \<Rightarrow> Inr (Some r))))
           | _ \<Rightarrow> Inr (Some d)))"

text \<open>The annotations the \<open>instances\<close> branch appends for one record.\<close>

definition parse_instances ::
  "mask_utils \<Rightarrow> bool \<Rightarrow> (int \<Rightarrow> int option) option \<Rightarrow> coco_image option \<Rightarrow> coco_ann
     \<Rightarrow> error + annotation list" where
  "parse_instances mu merge_instance_polygons label_map img_info ann =
     (case a_bbox ann of
        None \<Rightarrow> Inl (KeyError (KStr ''bbox''))
      | Some bb \<Rightarrow>
     (case unpack4 bb of
        Inl e \<Rightarrow> Inl e
      | Inr (x, y, w, h) \<Rightarrow>
     (case parse_label label_map ann of
        Inl e \<Rightarrow> Inl e
      | Inr label_id \<Rightarrow>
     (case a_iscrowd ann of
        None \<Rightarrow> Inl (KeyError (KStr ''iscrowd''))
      | Some crowd \<Rightarrow>
          let attrs = crowd_attributes ann crowd
          in (case a_segmentation ann of
                None \<Rightarrow> Inr [BboxObject_init x y w h label_id (a_id ann) attrs None]
              | Some seg \<Rightarrow>
                  (case instances_rle mu merge_instance_polygons img_info seg of
                     Inl e \<Rightarrow> Inl e
                   | Inr r \<Rightarrow>
                       Inr ((case seg of
                               SegPolygons polys \<Rightarrow>
                                 map (\<lambda>polygon_points.
                                        PolygonObject polygon_points label_id (a_id ann) attrs
                                          (a_id ann)) polys
                             | SegRle _ \<Rightarrow> [])
                            @ (case r of
                                 None \<Rightarrow> []
                               | Some m \<Rightarrow> [RleMask m label_id (a_id ann) attrs (a_id ann)])
                            @ [BboxObject_init x y w h label_id (a_id ann) attrs
                                 (a_id ann)])))))))"

text \<open>
  \<open>xs[start::step]\<close> for a non-negative \<open>start\<close> and a positive \<open>step\<close>, and the
  two views of a flat keypoint array.
\<close>

definition slice_from_step :: "nat \<Rightarrow> nat \<Rightarrow> 'a list \<Rightarrow> 'a list" where
  "slice_from_step start step xs =
     map (\<lambda>i. xs ! i)
       (filter (\<lambda>i. start \<le> i \<and> (i - start) mod step = 0) [0..<length xs])"

definition keypoint_points :: "'a list \<Rightarrow> 'a list" where
  "keypoint_points keypoints =
     map snd (filter (\<lambda>(i, p). i mod 3 \<noteq> 2) (enumerate 0 keypoints))"

definition keypoint_visibility :: "'a list \<Rightarrow> 'a list" where
  "keypoint_visibility keypoints = slice_from_step 2 3 keypoints"

text \<open>The annotations the \<open>person_keypoints\<close> branch appends for one record.\<close>

definition parse_person_keypoints ::
  "(int \<Rightarrow> int option) option \<Rightarrow> coco_ann \<Rightarrow> error + annotation list" where
  "parse_person_keypoints label_map ann =
     (case a_keypoints ann of
        None \<Rightarrow> Inl (KeyError (KStr ''keypoints''))
      | Some keypoints \<Rightarrow>
     (case parse_label label_map ann of
        Inl e \<Rightarrow> Inl e
      | Inr label_id \<Rightarrow>
          let pts = PointsObject (keypoint_points keypoints) (keypoint_visibility keypoints)
                      label_id (a_id ann) (score_attributes ann)
          in (case a_bbox ann of
                None \<Rightarrow> Inr [pts None]
              | Some bb \<Rightarrow>
                  (case bb of
                     [x, y, w, h] \<Rightarrow>
                       Inr [pts (a_id ann),
                            BboxObject_init x y w h label_id None [] (a_id ann)]
                   | _ \<Rightarrow> Inl TypeError))))"

text \<open>
  \<open>_parse_annotation\<close>: the parsed annotations of one record are appended to the list
  given; an exception leaves no list.
\<close>

definition parse_annotation ::
  "mask_utils \<Rightarrow> bool \<Rightarrow> (int \<Rightarrow> int option) option \<Rightarrow> coco_ann \<Rightarrow> CocoTask
     \<Rightarrow> annotation list \<Rightarrow> coco_image option \<Rightarrow> error + annotation list" where
  "parse_annotation mu merge_instance_polygons label_map ann ann_type parsed_annotations
       img_info =
     (case ann_type of
        instances \<Rightarrow>
          (case parse_instances mu merge_instance_polygons label_map img_info ann of
             Inl e \<Rightarrow> Inl e
           | Inr new \<Rightarrow> Inr (parsed_annotations @ new))
      | labels \<Rightarrow>
          (case parse_label label_map ann of
             Inl e \<Rightarrow> Inl e
           | Inr label_id \<Rightarrow>
               Inr (parsed_annotations
                    @ [LabelObject label_id (a_id ann) (score_attributes ann) None]))
      | person_keypoints \<Rightarrow>
          (case parse_person_keypoints label_map ann of
             Inl e \<Rightarrow> Inl e
           | Inr new \<Rightarrow> Inr (parsed_annotations @ new))
      | captions \<Rightarrow>
          (case a_caption ann of
             None \<Rightarrow> Inl (KeyError (KStr ''caption''))
           | Some c \<Rightarrow>
               Inr (parsed_annotations
                    @ [CaptionObject c (a_id ann) (score_attributes ann) None]))
      | image_info \<Rightarrow> Inl NotImplementedError)"

text \<open>
  The label table of the result of \<open>_load_categories\<close>: none when the call raises or
  builds no label table.
\<close>

definition label_table ::
  "error + (categories \<times> (int \<Rightarrow> int option) option) \<Rightarrow> LabelCategories option" where
  "label_table r = (case r of Inl e \<Rightarrow> None | Inr (c, m) \<Rightarrow> cat_label c)"

section \<open>Dataset items and extractors\<close>

text \<open>
  Modelled from the spec: \<open>DatasetItem\<close> and the \<open>Extractor\<close> interface are not part
  of the sources. An item has an id (an integer or a string), a subset name, an image
  or none, and its annotations. Of an image the code reads the shape of the pixel array
  only.
\<close>

datatype item_id = IdInt int | IdStr string

datatype pyimage = PyImage (shape: "int list")

record DatasetItem =
  item_id :: item_id
  item_subset :: "string option"
  item_image :: "pyimage option"
  item_annotations :: "annotation list"

definition has_image :: "DatasetItem \<Rightarrow> bool" where
  "has_image item = (\<not> Option.is_none (item_image item))"

text \<open>\<open>'%s' % item.id\<close>.\<close>

fun str_item_id :: "item_id \<Rightarrow> string" where
  "str_item_id (IdInt i) = str_int i"
| "str_item_id (IdStr s) = s"

text \<open>
  What a converter reads of an extractor or of one of its subsets: the items in
  iteration order and the category dictionary. The iteration is lazy, so an element is
  an item or the exception that pulling it raises. An extractor also lists its subset
  names (a name may be \<open>None\<close>) and hands out its subsets by name.
\<close>

record Dataset =
  ds_iter :: "(error + DatasetItem) list"
  ds_categories :: categories

record Extractor =
  ext_dataset :: Dataset
  ext_subsets :: "string option list"
  ext_get_subset :: "string \<Rightarrow> error + Dataset"

text \<open>
  Modelled from the spec: the directory names of \<open>CocoPath\<close> are not part of the
  sources. The spec gives the input layout as \<open>annotations/<task>_<subset>.json\<close> and
  \<open>images/[<subset>/]<filename>\<close>.
\<close>

definition ANNOTATIONS_DIR :: string where
  "ANNOTATIONS_DIR = ''annotations''"

definition IMAGES_DIR :: string where
  "IMAGES_DIR = ''images''"

text \<open>The keys of an ordered dictionary filled in the order of the list.\<close>

definition ordered_keys :: "'a list \<Rightarrow> 'a list" where
  "ordered_keys xs = rev (remdups (rev xs))"

text \<open>
  \<open>CocoExtractor.__init__\<close>. Reading and indexing the annotation file
  (\<open>_make_subset_loader\<close>) is a parameter.
\<close>

definition CocoExtractor_init ::
  "(string \<Rightarrow> loader) \<Rightarrow> string \<Rightarrow> CocoTask \<Rightarrow> bool \<Rightarrow> error + CocoExtractor" where
  "CocoExtractor_init make_subset_loader path task merge_instance_polygons =
     (case py_index (rsplit1 path ANNOTATIONS_DIR) 0 of
        Inl e \<Rightarrow> Inl e
      | Inr rootpath \<Rightarrow>
     (case py_index (rsplit1 (fst (splitext (basename path))) ''_'') 1 of
        Inl e \<Rightarrow> Inl e
      | Inr name \<Rightarrow>
          let ld = make_subset_loader path;
              subset' = \<lparr>subset_name = name, loaders = [(task, ld)],
                        items = ordered_keys (getImgIds ld)\<rparr>
          in (case load_categories [subset'] of
                Inl e \<Rightarrow> Inl e
              | Inr (c, label_map) \<Rightarrow>
                  Inr \<lparr>ex_path = rootpath, ex_task = task, ex_subsets = [(name, subset')],
                       ex_categories = c, ex_label_map = label_map,
                       ex_merge_instance_polygons = merge_instance_polygons\<rparr>)))"

text \<open>The inner loop of \<open>_get\<close>: all records of one loader are parsed in turn.\<close>

fun parse_annotations ::
  "mask_utils \<Rightarrow> bool \<Rightarrow> (int \<Rightarrow> int option) option \<Rightarrow> CocoTask \<Rightarrow> coco_image option
     \<Rightarrow> coco_ann list \<Rightarrow> annotation list \<Rightarrow> error + annotation list" where
  "parse_annotations mu mg label_map ann_type img_info [] annotations = Inr annotations"
| "parse_annotations mu mg label_map ann_type img_info (ann # anns) annotations =
     (case parse_annotation mu mg label_map ann ann_type annotations img_info of
        Inl e \<Rightarrow> Inl e
      | Inr annotations' \<Rightarrow>
          parse_annotations mu mg label_map ann_type img_info anns annotations')"

text \<open>
  The image of an item is looked for under \<open><root>/images/<file>\<close> and then under
  \<open><root>/images/<subset>/<file>\<close>. The file system is the map from the paths that
  exist to the images \<open>lazy_image\<close> loads from them.
\<close>

definition find_image ::
  "(string \<Rightarrow> pyimage option) \<Rightarrow> string \<Rightarrow> string \<Rightarrow> string \<Rightarrow> pyimage option" where
  "find_image fs rootpath subset' file_name =
     (if file_name \<noteq> [] then
        let image_dir = osp_join rootpath IMAGES_DIR;
            search_paths = [osp_join image_dir file_name,
                            osp_join (osp_join image_dir subset') file_name]
        in (case filter (\<lambda>p. \<not> Option.is_none (fs p)) search_paths of
              [] \<Rightarrow> None
            | image_path # _ \<Rightarrow> fs image_path)
      else None)"

text \<open>
  The outer loop of \<open>_get\<close> over the loaders of the subset. The state is the image
  record, the image and the annotations so far.
\<close>

fun get_loaders ::
  "mask_utils \<Rightarrow> (string \<Rightarrow> pyimage option) \<Rightarrow> CocoExtractor \<Rightarrow> int \<Rightarrow> string
     \<Rightarrow> (CocoTask \<times> loader) list
     \<Rightarrow> coco_image option \<times> pyimage option \<times> annotation list
     \<Rightarrow> error + (coco_image option \<times> pyimage option \<times> annotation list)" where
  "get_loaders mu fs self img_id subset' [] st = Inr st"
| "get_loaders mu fs self img_id subset' ((ann_type, ld) # rest) (img_info, img, annotations) =
     (case (if Option.is_none img then
              (case imgs ld img_id of
                 None \<Rightarrow> Inl (KeyError (KInt img_id))
               | Some info \<Rightarrow>
                   Inr (Some info, find_image fs (ex_path self) subset' (img_file_name info)))
            else Inr (img_info, img)) of
        Inl e \<Rightarrow> Inl e
      | Inr (img_info', img') \<Rightarrow>
          (case parse_annotations mu (ex_merge_instance_polygons self) (ex_label_map self)
                  ann_type img_info' (imgToAnns ld img_id) annotations of
             Inl e \<Rightarrow> Inl e
           | Inr annotations' \<Rightarrow>
               get_loaders mu fs self img_id subset' rest (img_info', img', annotations')))"

text \<open>\<open>_get\<close>: one item of a subset, parsed anew at each call.\<close>

definition get ::
  "mask_utils \<Rightarrow> (string \<Rightarrow> pyimage option) \<Rightarrow> CocoExtractor \<Rightarrow> int \<Rightarrow> string
     \<Rightarrow> error + DatasetItem" where
  "get mu fs self img_id subset' =
     (case map_of (ex_subsets self) subset' of
        None \<Rightarrow> Inl (KeyError (KStr subset'))
      | Some s \<Rightarrow>
          (case get_loaders mu fs self img_id subset' (loaders s) (None, None, []) of
             Inl e \<Rightarrow> Inl e
           | Inr (img_info, img, annotations) \<Rightarrow>
               Inr \<lparr>item_id = IdInt img_id, item_subset = Some subset', item_image = img,
                    item_annotations = annotations\<rparr>))"

text \<open>
  The extractor as the converters see it: \<open>subsets()\<close>, \<open>get_subset(name)\<close>,
  iteration (all subsets in turn) and \<open>categories()\<close>, which a subset takes from its
  parent.
\<close>

definition subset_dataset ::
  "mask_utils \<Rightarrow> (string \<Rightarrow> pyimage option) \<Rightarrow> CocoExtractor \<Rightarrow> Subset \<Rightarrow> Dataset" where
  "subset_dataset mu fs self s =
     \<lparr>ds_iter = map (\<lambda>img_id. get mu fs self img_id (subset_name s)) (items s),
      ds_categories = ex_categories self\<rparr>"

definition CocoExtractor_view ::
  "mask_utils \<Rightarrow> (string \<Rightarrow> pyimage option) \<Rightarrow> CocoExtractor \<Rightarrow> Extractor" where
  "CocoExtractor_view mu fs self =
     \<lparr>ext_dataset =
        \<lparr>ds_iter = concat (map (\<lambda>(n, s). ds_iter (subset_dataset mu fs self s))
                              (ex_subsets self)),
         ds_categories = ex_categories self\<rparr>,
      ext_subsets = map (\<lambda>(n, s). Some n) (ex_subsets self),
      ext_get_subset = (\<lambda>name.
        case map_of (ex_subsets self) name of
          None \<Rightarrow> Inl (KeyError (KStr name))
        | Some s \<Rightarrow> Inr (subset_dataset mu fs self s))\<rparr>"

section \<open>Converters\<close>

text \<open>
  Sequencing of calls that may raise: the first exception ends the computation.
\<close>

fun bind_err :: "error + 'a \<Rightarrow> ('a \<Rightarrow> error + 'b) \<Rightarrow> error + 'b" where
  "bind_err (Inl e) f = Inl e"
| "bind_err (Inr x) f = f x"

definition NL :: string where
  "NL = [CHR 0x0A]"

definition TAB :: string where
  "TAB = [CHR 0x09]"

text \<open>
  \<open>d[k] = v\<close> on a dictionary held in insertion order: the value of a key already
  there is replaced in place, a new key is appended.
\<close>

fun dict_set :: "'k \<Rightarrow> 'v \<Rightarrow> ('k \<times> 'v) list \<Rightarrow> ('k \<times> 'v) list" where
  "dict_set k v [] = [(k, v)]"
| "dict_set k v ((k', v') # d) =
     (if k' = k then (k', v) # d else (k', v') # dict_set k v d)"

text \<open>A subset name is false as a condition when it is \<open>None\<close> or the empty string.\<close>

fun truthy :: "string option \<Rightarrow> bool" where
  "truthy None = False"
| "truthy (Some s) = (s \<noteq> [])"

text \<open>
  A record of the record format: the feature dictionary of a \<open>tf.train.Example\<close>, in
  insertion order.
\<close>

datatype feature =
    BytesFeature string
  | Int64Feature int
  | BytesListFeature "string list"
  | Int64ListFeature "int list"
  | FloatListFeature "pynum list"

type_synonym tf_example = "(string \<times> feature) list"

text \<open>
  What a converter does to the file system, in order. An exception ends the conversion
  and leaves the files written so far; the model then returns the exception alone.
  Failures of the file system itself are outside the model.
\<close>

datatype event =
    MakeDirs string
  | WriteText string string
  | WriteRecords string "tf_example list"
  | SaveImage string "pyimage option"

fun event_path :: "event \<Rightarrow> string" where
  "event_path (MakeDirs p) = p"
| "event_path (WriteText p t) = p"
| "event_path (WriteRecords p r) = p"
| "event_path (SaveImage p i) = p"

text \<open>\<open>os.path.exists\<close>, after the events of the log: \<open>exists0\<close> is the state before.\<close>

definition path_exists :: "(string \<Rightarrow> bool) \<Rightarrow> event list \<Rightarrow> string \<Rightarrow> bool" where
  "path_exists exists0 log p = (exists0 p \<or> p \<in> set (map event_path log))"

subsection \<open>The line format (YOLO)\<close>

text \<open>
  The constants of \<open>YoloPath\<close> are not part of the sources: they are parameters.
\<close>

record YoloPath =
  SUBSET_NAMES :: "string list"
  DEFAULT_SUBSET_NAME :: string

text \<open>\<open>_make_yolo_bbox\<close>: the centre and the size of a box, relative to the image size.\<close>

definition make_yolo_bbox ::
  "pynum \<times> pynum \<Rightarrow> pynum list \<Rightarrow> error + (pynum \<times> pynum \<times> pynum \<times> pynum)" where
  "make_yolo_bbox img_size box =
     bind_err (py_index box 0) (\<lambda>b0. bind_err (py_index box 2) (\<lambda>b2.
     bind_err (py_truediv (py_add b0 b2) (PyInt 2)) (\<lambda>mx.
     bind_err (py_truediv mx (fst img_size)) (\<lambda>x.
     bind_err (py_index box 1) (\<lambda>b1. bind_err (py_index box 3) (\<lambda>b3.
     bind_err (py_truediv (py_add b1 b3) (PyInt 2)) (\<lambda>my.
     bind_err (py_truediv my (snd img_size)) (\<lambda>y.
     bind_err (py_truediv (py_sub b2 b0) (fst img_size)) (\<lambda>w.
     bind_err (py_truediv (py_sub b3 b1) (snd img_size)) (\<lambda>h.
     Inr (x, y, w, h)))))))))))"

text \<open>
  The annotation text of an item: one line per bounding box that has a label, anything
  else is passed over.
\<close>

fun yolo_lines :: "pynum \<times> pynum \<Rightarrow> annotation list \<Rightarrow> error + string" where
  "yolo_lines img_size [] = Inr []"
| "yolo_lines img_size (bbox # rest) =
     (if ann_type_of bbox \<noteq> T_bbox then yolo_lines img_size rest
      else (case label bbox of
              None \<Rightarrow> yolo_lines img_size rest
            | Some l \<Rightarrow>
                bind_err (make_yolo_bbox img_size (points bbox)) (\<lambda>(x, y, w, h).
                bind_err (yolo_lines img_size rest) (\<lambda>more.
                Inr (str_int l @ '' '' @ join '' '' (map format_6f [x, y, w, h]) @ NL
                     @ more)))))"

definition yolo_annotation :: "DatasetItem \<Rightarrow> error + string" where
  "yolo_annotation item =
     (case item_image item of
        None \<Rightarrow> Inl AttributeError
      | Some img \<Rightarrow>
          (case shape img of
             [height, width, channels] \<Rightarrow>
               yolo_lines (PyInt width, PyInt height) (item_annotations item)
           | _ \<Rightarrow> Inl ValueError))"

text \<open>
  The body of the loop over the items of a subset. \<open>save_image\<close> is the external
  image writer (it may raise). The state is the log and the dictionary of image paths.
\<close>

definition yolo_item ::
  "(string \<Rightarrow> pyimage option \<Rightarrow> error option) \<Rightarrow> (string \<Rightarrow> bool) \<Rightarrow> bool \<Rightarrow> string
     \<Rightarrow> DatasetItem \<Rightarrow> event list \<times> (item_id \<times> string) list
     \<Rightarrow> error + (event list \<times> (item_id \<times> string) list)" where
  "yolo_item save_image exists0 save_images subset_dir item st =
     (case st of (log, image_paths) \<Rightarrow>
        let image_name = str_item_id (item_id item) @ ''.jpg'';
            image_paths' = dict_set (item_id item)
              (osp_join (osp_join ''data'' (basename subset_dir)) image_name) image_paths;
            image_path = osp_join subset_dir image_name
        in bind_err
             (if save_images \<and> \<not> path_exists exists0 log image_path then
                (case save_image image_path (item_image item) of
                   Some e \<Rightarrow> Inl e
                 | None \<Rightarrow> Inr (log @ [SaveImage image_path (item_image item)]))
              else Inr log)
             (\<lambda>log'. bind_err (yolo_annotation item) (\<lambda>yolo_annotation.
                Inr (log' @ [WriteText (osp_join subset_dir
                                          (str_item_id (item_id item) @ ''.txt''))
                               yolo_annotation],
                     image_paths'))))"

fun yolo_items ::
  "(string \<Rightarrow> pyimage option \<Rightarrow> error option) \<Rightarrow> (string \<Rightarrow> bool) \<Rightarrow> bool \<Rightarrow> string
     \<Rightarrow> (error + DatasetItem) list \<Rightarrow> event list \<times> (item_id \<times> string) list
     \<Rightarrow> error + (event list \<times> (item_id \<times> string) list)" where
  "yolo_items save_image exists0 save_images subset_dir [] st = Inr st"
| "yolo_items save_image exists0 save_images subset_dir (it # its) st =
     bind_err it (\<lambda>item.
     bind_err (yolo_item save_image exists0 save_images subset_dir item st)
       (yolo_items save_image exists0 save_images subset_dir its))"

text \<open>
  The state of the loop over the subsets: the log, the dictionary \<open>subset_lists\<close> and
  the warnings logged.
\<close>

record yolo_state =
  y_log :: "event list"
  y_subset_lists :: "(string \<times> string) list"
  y_warnings :: "string list"

text \<open>The export of one accepted subset: its directory, its items, its list file.\<close>

definition yolo_subset ::
  "(string \<Rightarrow> pyimage option \<Rightarrow> error option) \<Rightarrow> (string \<Rightarrow> bool) \<Rightarrow> bool \<Rightarrow> string
     \<Rightarrow> string \<Rightarrow> Dataset \<Rightarrow> yolo_state \<Rightarrow> error + yolo_state" where
  "yolo_subset save_image exists0 save_images save_dir name subset' st =
     (let subset_dir = osp_join save_dir (''obj_'' @ name @ ''_data'')
      in bind_err
           (yolo_items save_image exists0 save_images subset_dir (ds_iter subset')
              (y_log st @ [MakeDirs subset_dir], []))
           (\<lambda>(log, image_paths).
              let subset_list_name = name @ ''.txt''
              in Inr (st\<lparr>y_log := log @ [WriteText (osp_join save_dir subset_list_name)
                                             (concat (map (\<lambda>(i, s). s @ NL) image_paths))],
                         y_subset_lists :=
                           dict_set name subset_list_name (y_subset_lists st)\<rparr>)))"

definition skip_warning :: "YoloPath \<Rightarrow> string \<Rightarrow> string" where
  "skip_warning yp name =
     ''Skipping subset export '' @ [CHR 0x27] @ name @ [CHR 0x27]
     @ ''. If specified, the only valid names are ''
     @ join '', '' (map (\<lambda>s. [CHR 0x27] @ s @ [CHR 0x27]) (SUBSET_NAMES yp))"

text \<open>
  The loop over the subset names: a name of the whitelist is exported from
  \<open>get_subset\<close>, no name is exported under the default name from the whole extractor,
  and any other name is passed over with a warning.
\<close>

fun yolo_subsets ::
  "YoloPath \<Rightarrow> (string \<Rightarrow> pyimage option \<Rightarrow> error option) \<Rightarrow> (string \<Rightarrow> bool) \<Rightarrow> bool
     \<Rightarrow> Extractor \<Rightarrow> string \<Rightarrow> string option list \<Rightarrow> yolo_state \<Rightarrow> error + yolo_state" where
  "yolo_subsets yp save_image exists0 save_images extractor save_dir [] st = Inr st"
| "yolo_subsets yp save_image exists0 save_images extractor save_dir (subset_name' # rest) st =
     (if truthy subset_name' \<and> the subset_name' \<in> set (SUBSET_NAMES yp) then
        bind_err (ext_get_subset extractor (the subset_name')) (\<lambda>subset'.
        bind_err (yolo_subset save_image exists0 save_images save_dir (the subset_name')
                    subset' st)
          (yolo_subsets yp save_image exists0 save_images extractor save_dir rest))
      else if \<not> truthy subset_name' then
        bind_err (yolo_subset save_image exists0 save_images save_dir
                    (DEFAULT_SUBSET_NAME yp) (ext_dataset extractor) st)
          (yolo_subsets yp save_image exists0 save_images extractor save_dir rest)
      else
        yolo_subsets yp save_image exists0 save_images extractor save_dir rest
          (st\<lparr>y_warnings := y_warnings st @ [skip_warning yp (the subset_name')]\<rparr>))"

text \<open>The subset names a converter goes through: one unnamed subset when there is none.\<close>

definition subsets_or_default :: "Extractor \<Rightarrow> string option list" where
  "subsets_or_default extractor =
     (if length (ext_subsets extractor) = 0 then [None] else ext_subsets extractor)"

text \<open>\<open>YoloConverter.__call__\<close>.\<close>

definition YoloConverter_call ::
  "YoloPath \<Rightarrow> (string \<Rightarrow> pyimage option \<Rightarrow> error option) \<Rightarrow> (string \<Rightarrow> bool) \<Rightarrow> bool
     \<Rightarrow> Extractor \<Rightarrow> string \<Rightarrow> error + yolo_state" where
  "YoloConverter_call yp save_image exists0 save_images extractor save_dir =
     (case cat_label (ds_categories (ext_dataset extractor)) of
        None \<Rightarrow> Inl (KeyError (KStr ''AnnotationType.label''))
      | Some label_categories \<Rightarrow>
          let label_ids = fold (\<lambda>(idx, l) d. dict_set (fst l) (int idx) d)
                            (enumerate 0 label_categories) [];
              log = [MakeDirs save_dir,
                     WriteText (osp_join save_dir ''obj.names'')
                       (concat (map (\<lambda>l. fst l @ NL) (sort_key snd label_ids)))]
          in bind_err
               (yolo_subsets yp save_image exists0 save_images extractor save_dir
                  (subsets_or_default extractor)
                  \<lparr>y_log = log, y_subset_lists = [], y_warnings = []\<rparr>)
               (\<lambda>st. Inr (st\<lparr>y_log := y_log st
                   @ [WriteText (osp_join save_dir ''obj.data'')
                        (''classes = '' @ str_int (int (length label_ids)) @ NL
                         @ concat (map (\<lambda>(n, list_name).
                                          n @ '' = '' @ osp_join ''data'' list_name @ NL)
                                     (y_subset_lists st))
                         @ ''names = '' @ osp_join ''data'' ''obj.names'' @ NL
                         @ ''backup = backup/'' @ NL)]\<rparr>)))"

subsection \<open>The record format (TFRecord)\<close>

text \<open>
  The constants of \<open>DetectionApiPath\<close> are not part of the sources: they are
  parameters, and so is \<open>DEFAULT_SUBSET_NAME\<close> of the extractor module.
\<close>

record DetectionApiPath =
  IMAGE_EXT :: string
  IMAGE_FORMAT :: string
  LABELMAP_FILE :: string

text \<open>
  \<open>_make_printable\<close> keeps the characters of \<open>string.printable\<close>: the ASCII codes 32
  to 126 and the white space 9 to 13.
\<close>

definition printable :: "char \<Rightarrow> bool" where
  "printable c = (let n = (of_char c :: nat) in (32 \<le> n \<and> n \<le> 126) \<or> (9 \<le> n \<and> n \<le> 13))"

definition make_printable :: "string \<Rightarrow> string" where
  "make_printable s = filter printable s"

text \<open>
  The loop over the boxes of an item: six parallel lists, one entry per box. Every
  coordinate is divided by the image width or height.
\<close>

fun tf_boxes ::
  "(int option \<Rightarrow> error + int) \<Rightarrow> (int option \<Rightarrow> error + string) \<Rightarrow> pynum \<Rightarrow> pynum
     \<Rightarrow> annotation list
     \<Rightarrow> error + (pynum list \<times> pynum list \<times> pynum list \<times> pynum list \<times> string list \<times> int list)" where
  "tf_boxes get_label_id get_label width height [] = Inr ([], [], [], [], [], [])"
| "tf_boxes get_label_id get_label width height (box # boxes) =
     bind_err (get_label (label box)) (\<lambda>name.
     bind_err (py_index (points box) 0) (\<lambda>p0. bind_err (py_truediv p0 width) (\<lambda>xmin.
     bind_err (py_index (points box) 2) (\<lambda>p2. bind_err (py_truediv p2 width) (\<lambda>xmax.
     bind_err (py_index (points box) 1) (\<lambda>p1. bind_err (py_truediv p1 height) (\<lambda>ymin.
     bind_err (py_index (points box) 3) (\<lambda>p3. bind_err (py_truediv p3 height) (\<lambda>ymax.
     bind_err (get_label_id (label box)) (\<lambda>cls.
     bind_err (tf_boxes get_label_id get_label width height boxes)
       (\<lambda>(xmins, xmaxs, ymins, ymaxs, classes_text, classes).
          Inr (xmin # xmins, xmax # xmaxs, ymin # ymins, ymax # ymaxs,
               make_printable name # classes_text, cls # classes))))))))))))"

text \<open>
  \<open>_make_tf_example\<close>. An item without an image gets the height and the width 0.
  \<open>encode_image\<close> is the external image encoder.
\<close>

definition make_tf_example ::
  "DetectionApiPath \<Rightarrow> (pyimage \<Rightarrow> string \<Rightarrow> string) \<Rightarrow> DatasetItem
     \<Rightarrow> (int option \<Rightarrow> error + int) \<Rightarrow> (int option \<Rightarrow> error + string) \<Rightarrow> bool
     \<Rightarrow> error + tf_example" where
  "make_tf_example dp encode_image item get_label_id get_label save_images =
     (let features =
            [(''image/source_id'', BytesFeature (str_item_id (item_id item))),
             (''image/filename'', BytesFeature (str_item_id (item_id item) @ IMAGE_EXT dp))]
      in bind_err
           (case item_image item of
              None \<Rightarrow> Inr (0, 0)
            | Some img \<Rightarrow>
                (case shape img of
                   [height, width, channels] \<Rightarrow> Inr (height, width)
                 | _ \<Rightarrow> Inl ValueError))
           (\<lambda>(height, width).
              let features = features
                    @ [(''image/height'', Int64Feature height),
                       (''image/width'', Int64Feature width)];
                  features =
                    (case item_image item of
                       Some img \<Rightarrow>
                         if save_images then
                           features
                           @ [(''image/encoded'',
                               BytesFeature (encode_image img (IMAGE_FORMAT dp))),
                              (''image/format'', BytesFeature (IMAGE_FORMAT dp))]
                         else features
                     | None \<Rightarrow> features);
                  boxes = filter (\<lambda>ann. ann_type_of ann = T_bbox) (item_annotations item)
              in bind_err (tf_boxes get_label_id get_label (PyInt width) (PyInt height) boxes)
                   (\<lambda>(xmins, xmaxs, ymins, ymaxs, classes_text, classes).
                      Inr (if boxes \<noteq> [] then
                             features
                             @ [(''image/object/bbox/xmin'', FloatListFeature xmins),
                                (''image/object/bbox/xmax'', FloatListFeature xmaxs),
                                (''image/object/bbox/ymin'', FloatListFeature ymins),
                                (''image/object/bbox/ymax'', FloatListFeature ymaxs),
                                (''image/object/class/text'', BytesListFeature classes_text),
                                (''image/object/class/label'', Int64ListFeature classes)]
                           else features))))"

text \<open>The two label functions the converter hands to \<open>_make_tf_example\<close>.\<close>

definition get_label :: "LabelCategories \<Rightarrow> int option \<Rightarrow> error + string" where
  "get_label label_categories label_id =
     (case label_id of
        None \<Rightarrow> Inr []
      | Some i \<Rightarrow> bind_err (py_index label_categories i) (\<lambda>l. Inr (fst l)))"

definition map_label_id ::
  "LabelCategories \<Rightarrow> (string \<times> int) list \<Rightarrow> int option \<Rightarrow> error + int" where
  "map_label_id label_categories label_ids label_id =
     bind_err (get_label label_categories label_id) (\<lambda>name.
       Inr (case map_of label_ids name of None \<Rightarrow> 0 | Some idx \<Rightarrow> idx))"

fun tf_examples ::
  "DetectionApiPath \<Rightarrow> (pyimage \<Rightarrow> string \<Rightarrow> string) \<Rightarrow> LabelCategories
     \<Rightarrow> (string \<times> int) list \<Rightarrow> bool \<Rightarrow> (error + DatasetItem) list
     \<Rightarrow> error + tf_example list" where
  "tf_examples dp encode_image label_categories label_ids save_images [] = Inr []"
| "tf_examples dp encode_image label_categories label_ids save_images (it # its) =
     bind_err it (\<lambda>item.
     bind_err (make_tf_example dp encode_image item
                 (map_label_id label_categories label_ids)
                 (get_label label_categories) save_images) (\<lambda>tf_example.
     bind_err (tf_examples dp encode_image label_categories label_ids save_images its)
       (\<lambda>more. Inr (tf_example # more))))"

text \<open>The export of one subset: the label map file and the record file.\<close>

definition tf_subset ::
  "DetectionApiPath \<Rightarrow> (pyimage \<Rightarrow> string \<Rightarrow> string) \<Rightarrow> bool \<Rightarrow> string \<Rightarrow> string
     \<Rightarrow> Dataset \<Rightarrow> event list \<Rightarrow> error + event list" where
  "tf_subset dp encode_image save_images save_dir name subset' log =
     (case cat_label (ds_categories subset') of
        None \<Rightarrow> Inl (KeyError (KStr ''AnnotationType.label''))
      | Some label_categories \<Rightarrow>
          let label_ids = fold (\<lambda>(idx, l) d. dict_set (fst l) (1 + int idx) d)
                            (enumerate 0 label_categories) [];
              labelmap = WriteText (osp_join save_dir (LABELMAP_FILE dp))
                (concat (map (\<lambda>(l, idx).
                   ''item {'' @ NL @ TAB @ ''id: '' @ str_int idx @ NL
                   @ TAB @ ''name: '' @ [CHR 0x27] @ l @ [CHR 0x27] @ NL
                   @ ''}'' @ NL @ NL) label_ids));
              anno_path = osp_join save_dir (name @ ''.tfrecord'')
          in bind_err
               (tf_examples dp encode_image label_categories label_ids save_images
                  (ds_iter subset'))
               (\<lambda>records. Inr (log @ [labelmap, WriteRecords anno_path records])))"

fun tf_subsets ::
  "DetectionApiPath \<Rightarrow> string \<Rightarrow> (pyimage \<Rightarrow> string \<Rightarrow> string) \<Rightarrow> bool \<Rightarrow> Extractor
     \<Rightarrow> string \<Rightarrow> string option list \<Rightarrow> event list \<Rightarrow> error + event list" where
  "tf_subsets dp default_name encode_image save_images extractor save_dir [] log = Inr log"
| "tf_subsets dp default_name encode_image save_images extractor save_dir
       (subset_name' # rest) log =
     bind_err
       (if truthy subset_name' then
          bind_err (ext_get_subset extractor (the subset_name')) (\<lambda>subset'.
            tf_subset dp encode_image save_images save_dir (the subset_name') subset' log)
        else
          tf_subset dp encode_image save_images save_dir default_name
            (ext_dataset extractor) log)
       (tf_subsets dp default_name encode_image save_images extractor save_dir rest)"

text \<open>\<open>DetectionApiConverter.__call__\<close>.\<close>

definition DetectionApiConverter_call ::
  "DetectionApiPath \<Rightarrow> string \<Rightarrow> (pyimage \<Rightarrow> string \<Rightarrow> string) \<Rightarrow> bool \<Rightarrow> Extractor
     \<Rightarrow> string \<Rightarrow> error + event list" where
  "DetectionApiConverter_call dp default_name encode_image save_images extractor save_dir =
     tf_subsets dp default_name encode_image save_images extractor save_dir
       (subsets_or_default extractor) [MakeDirs save_dir]"

text \<open>The record files and the text files a log writes, by path.\<close>

fun record_files :: "event list \<Rightarrow> (string \<times> tf_example list) list" where
  "record_files [] = []"
| "record_files (WriteRecords p records # log) = (p, records) # record_files log"
| "record_files (e # log) = record_files log"

text \<open>
  A subset name the line-format converter exports: no name (exported under the default
  name) or a name of the whitelist.
\<close>

definition accepted :: "YoloPath \<Rightarrow> string option \<Rightarrow> bool" where
  "accepted yp n = (\<not> truthy n \<or> the n \<in> set (SUBSET_NAMES yp))"

text \<open>
  What a run of the loop over the subsets leaves on disk: the exception, or the log and
  the subsets listed.
\<close>

fun files_of :: "error + yolo_state \<Rightarrow> error + (event list \<times> (string \<times> string) list)" where
  "files_of (Inl e) = Inl e"
| "files_of (Inr s) = Inr (y_log s, y_subset_lists s)"

section \<open>The importer\<close>

text \<open>
  Modelled from the spec: the member names of \<open>CocoTask\<close>, in the order the spec
  lists the task vocabulary. \<open>CocoTask[name]\<close> looks a member up by its name.
\<close>

fun task_name :: "CocoTask \<Rightarrow> string" where
  "task_name instances = ''instances''"
| "task_name person_keypoints = ''person_keypoints''"
| "task_name captions = ''captions''"
| "task_name labels = ''labels''"
| "task_name image_info = ''image_info''"

definition all_tasks :: "CocoTask list" where
  "all_tasks = [instances, person_keypoints, captions, labels, image_info]"

definition CocoTask_of :: "string \<Rightarrow> CocoTask option" where
  "CocoTask_of name =
     (case filter (\<lambda>t. task_name t = name) all_tasks of [] \<Rightarrow> None | t # _ \<Rightarrow> Some t)"

text \<open>\<open>CocoImporter._COCO_EXTRACTORS\<close>.\<close>

fun COCO_EXTRACTORS :: "CocoTask \<Rightarrow> string" where
  "COCO_EXTRACTORS instances = ''coco_instances''"
| "COCO_EXTRACTORS person_keypoints = ''coco_person_kp''"
| "COCO_EXTRACTORS captions = ''coco_captions''"
| "COCO_EXTRACTORS labels = ''coco_labels''"
| "COCO_EXTRACTORS image_info = ''coco_images''"

definition unknown_subset_type :: "string \<Rightarrow> string" where
  "unknown_subset_type ann_type =
     ''Unknown subset type '' @ ann_type @ '', only known are: ''
     @ join '', '' (map task_name all_tasks)"

text \<open>
  The loop of \<open>find_subsets\<close> over the directory listing. The result maps a subset
  name to the annotation files of the subset by task; both dictionaries are in insertion
  order.
\<close>

fun find_subsets_loop ::
  "string \<Rightarrow> string list \<Rightarrow> (string \<times> (CocoTask \<times> string) list) list
     \<Rightarrow> error + (string \<times> (CocoTask \<times> string) list) list" where
  "find_subsets_loop ann_dir [] subsets = Inr subsets"
| "find_subsets_loop ann_dir (ann_file # files) subsets =
     (let subset_path = osp_join ann_dir ann_file
      in if \<not> endswith subset_path ''.json'' then find_subsets_loop ann_dir files subsets
         else
           let name_parts = rsplit1 (fst (splitext ann_file)) ''_''
           in bind_err (py_index name_parts 0) (\<lambda>ann_type.
                (case CocoTask_of ann_type of
                   None \<Rightarrow> Inl (Exception (unknown_subset_type ann_type))
                 | Some task \<Rightarrow>
                     bind_err (py_index name_parts 1) (\<lambda>name.
                       find_subsets_loop ann_dir files
                         (dict_set name
                            (dict_set task subset_path
                               (case map_of subsets name of None \<Rightarrow> [] | Some d \<Rightarrow> d))
                            subsets)))))"

text \<open>
  \<open>find_subsets\<close>. The file system is the directory listing: \<open>listdir p\<close> is
  \<open>None\<close> when \<open>p\<close> is not a directory.
\<close>

definition find_subsets ::
  "(string \<Rightarrow> string list option) \<Rightarrow> string
     \<Rightarrow> error + (string \<times> (CocoTask \<times> string) list) list" where
  "find_subsets listdir dataset_dir =
     (let ann_dir = osp_join dataset_dir ANNOTATIONS_DIR
      in case listdir ann_dir of
           None \<Rightarrow>
             Inl (NotADirectoryError
                    (''COCO annotations directory not found at '' @ [CHR 0x22] @ ann_dir
                     @ [CHR 0x22]))
         | Some files \<Rightarrow> find_subsets_loop ann_dir files [])"

text \<open>
  \<open>CocoImporter.__call__\<close>: one source per annotation file. The project registry is
  external; the result is the list of the sources added, in order.
\<close>

record source =
  src_name :: string
  src_url :: string
  src_format :: string

definition CocoImporter_call ::
  "(string \<Rightarrow> string list option) \<Rightarrow> string \<Rightarrow> error + source list" where
  "CocoImporter_call listdir path =
     bind_err (find_subsets listdir path) (\<lambda>subsets.
       if length subsets = 0 then
         Inl (Exception (''Failed to find '' @ [CHR 0x27] @ ''coco'' @ [CHR 0x27]
                         @ '' dataset at '' @ [CHR 0x27] @ path @ [CHR 0x27]))
       else
         Inr (concat (map (\<lambda>(name, ann_files).
                map (\<lambda>(ann_type, ann_file).
                       \<lparr>src_name = fst (splitext (basename ann_file)), src_url = ann_file,
                        src_format = COCO_EXTRACTORS ann_type\<rparr>) ann_files) subsets)))"

section \<open>Example documents\<close>

text \<open>A loader with one category of the given name and no images.\<close>

definition ex_loader :: "string \<Rightarrow> loader" where
  "ex_loader name =
     \<lparr>getImgIds = [], imgs = (\<lambda>_. None), imgToAnns = (\<lambda>_. []),
      cats = [\<lparr>cat_id = 1, cat_name = name, cat_supercategory = [],
               cat_keypoints = [], cat_skeleton = []\<rparr>]\<rparr>"

text \<open>A subset that has an \<open>instances\<close> loader and a \<open>labels\<close> loader.\<close>

definition ex_subset_both :: Subset where
  "ex_subset_both =
     \<lparr>subset_name = ''train'',
      loaders = [(instances, ex_loader ''from_instances''),
                 (labels, ex_loader ''from_labels'')],
      items = []\<rparr>"

text \<open>
  The document of the spec's scenario: the categories \<open>cat\<close> (id 1) and \<open>dog\<close>
  (id 2), one image of width 100 and height 50, and one instance annotation with the box
  \<open>[10, 10, 20, 20]\<close> and the category id 2.
\<close>

definition ex_ann :: "int option \<Rightarrow> coco_ann" where
  "ex_ann c =
     \<lparr>a_id = Some 1, a_score = None,
      a_bbox = Some [PyInt 10, PyInt 10, PyInt 20, PyInt 20],
      a_category_id = c, a_iscrowd = Some 0, a_segmentation = None,
      a_keypoints = None, a_caption = None\<rparr>"

definition ex_ann_seg :: "segmentation \<Rightarrow> coco_ann" where
  "ex_ann_seg seg = (ex_ann (Some 2))\<lparr>a_segmentation := Some seg\<rparr>"

definition ex_ann_kp :: "pynum list option \<Rightarrow> coco_ann" where
  "ex_ann_kp bb =
     \<lparr>a_id = Some 5, a_score = None, a_bbox = bb, a_category_id = Some 1,
      a_iscrowd = None, a_segmentation = None,
      a_keypoints = Some [PyInt 1, PyInt 2, PyInt 2, PyInt 3, PyInt 4, PyInt 0],
      a_caption = None\<rparr>"

definition ex_image :: coco_image where
  "ex_image = \<lparr>img_file_name = ''a.jpg'', img_height = 50, img_width = 100\<rparr>"

definition ex_cats :: "coco_category list" where
  "ex_cats =
     [\<lparr>cat_id = 1, cat_name = ''cat'', cat_supercategory = [],
       cat_keypoints = [], cat_skeleton = []\<rparr>,
      \<lparr>cat_id = 2, cat_name = ''dog'', cat_supercategory = [],
       cat_keypoints = [], cat_skeleton = []\<rparr>]"

definition ex_coco :: loader where
  "ex_coco =
     \<lparr>getImgIds = [1],
      imgs = (\<lambda>i. if i = 1 then Some ex_image else None),
      imgToAnns = (\<lambda>i. if i = 1 then [ex_ann (Some 2)] else []),
      cats = ex_cats\<rparr>"

text \<open>The image file of the scenario, found under the first search path.\<close>

definition ex_fs :: "string \<Rightarrow> pyimage option" where
  "ex_fs p = (if p = ''ds/images/a.jpg'' then Some (PyImage [50, 100, 3]) else None)"

definition ex_yolo_path :: YoloPath where
  "ex_yolo_path = \<lparr>SUBSET_NAMES = [''train'', ''valid''], DEFAULT_SUBSET_NAME = ''train''\<rparr>"

text \<open>
  An extractor given directly: one item with an image of width 100 and height 50 and one
  labelled box, the subset \<open>train\<close>, and the subset names asked for.
\<close>

definition ex_item :: DatasetItem where
  "ex_item =
     \<lparr>item_id = IdInt 1, item_subset = Some ''train'',
      item_image = Some (PyImage [50, 100, 3]),
      item_annotations =
        [BboxObject [PyInt 10, PyInt 10, PyInt 30, PyInt 30] (Some 1) (Some 1) [] None]\<rparr>"

definition ex_dataset :: "DatasetItem list \<Rightarrow> Dataset" where
  "ex_dataset its =
     \<lparr>ds_iter = map Inr its,
      ds_categories = \<lparr>cat_label = Some [(''cat'', []), (''dog'', [])], cat_points = None\<rparr>\<rparr>"

definition ex_extractor :: "string option list \<Rightarrow> Extractor" where
  "ex_extractor names =
     \<lparr>ext_dataset = ex_dataset [ex_item],
      ext_subsets = names,
      ext_get_subset = (\<lambda>n. if n = ''train'' then Inr (ex_dataset [ex_item])
                             else Inl (KeyError (KStr n)))\<rparr>"

definition ex_detection_path :: DetectionApiPath where
  "ex_detection_path =
     \<lparr>IMAGE_EXT = ''.jpg'', IMAGE_FORMAT = ''jpeg'', LABELMAP_FILE = ''label_map.pbtxt''\<rparr>"

definition ex_yolo_state :: yolo_state where
  "ex_yolo_state = \<lparr>y_log = [], y_subset_lists = [], y_warnings = []\<rparr>"

text \<open>A dataset directory whose annotation directory holds the files given.\<close>

definition ex_listdir :: "string list \<Rightarrow> string \<Rightarrow> string list option" where
  "ex_listdir files p = (if p = ''ds/annotations'' then Some files else None)"

text \<open>An RLE library for the examples: it never raises.\<close>

definition ex_rle :: "int \<Rightarrow> int \<Rightarrow> string \<Rightarrow> rle_obj" where
  "ex_rle h w c = \<lparr>rle_size = [h, w], rle_counts = CountsBytes c\<rparr>"

text \<open>
  A decoder for the examples: it reads the counts as text, whether they come as a string
  or as a byte string, and gives an array of the size of the RLE.
\<close>

definition ex_decode :: "rle_obj \<Rightarrow> bool list list" where
  "ex_decode r =
     (let on = (case rle_counts r of
                  CountsStr c \<Rightarrow> c \<noteq> ''0''
                | CountsBytes c \<Rightarrow> c \<noteq> ''0''
                | CountsList c \<Rightarrow> c \<noteq> [0])
      in case rle_size r of
           [h, w] \<Rightarrow> replicate (nat h) (replicate (nat w) on)
         | _ \<Rightarrow> [])"

definition ex_mask_utils :: mask_utils where
  "ex_mask_utils =
     \<lparr>frPyObjects = (\<lambda>obj h w.
        Inr (case obj of
               PolyObjs polys \<Rightarrow> map (\<lambda>p. ex_rle h w ''poly'') polys
             | RleObjs ds \<Rightarrow> map (\<lambda>d. ex_rle h w ''rle'') ds)),
      merge = (\<lambda>rles. Inr (ex_rle 50 100 ''merged''))\<rparr>"

section \<open>Properties\<close>

text \<open>
  C1. Two masks constructed from run-length encodings \<open>r1\<close> and \<open>r2\<close> are equal
  exactly when \<open>r1\<close> and \<open>r2\<close> are the same RLE representation. The comparison
  never consults the decoder: two different representations that decode to the same
  pixel array are unequal masks.
\<close>

theorem RleMask_eq_iff_rle:
  "RleMask_eq decode (RleMask r1 l1 i1 a1 g1) (RleMask r2 l2 i2 a2 g2) = (r1 = r2)
   \<and> (decode r1 = decode r2 \<and> r1 \<noteq> r2 \<longrightarrow>
        \<not> RleMask_eq decode (RleMask r1 l1 i1 a1 g1) (RleMask r2 l2 i2 a2 g2))"
  by (simp add: RleMask_eq_def)

theorem RleMask_eq_iff_rle_witness:
  "ex_decode (ex_rle 2 3 ''06'') = ex_decode \<lparr>rle_size = [2, 3], rle_counts = CountsStr ''06''\<rparr>
   \<and> \<not> RleMask_eq ex_decode (RleMask (ex_rle 2 3 ''06'') (Some 1) (Some 1) [] None)
         (RleMask \<lparr>rle_size = [2, 3], rle_counts = CountsStr ''06''\<rparr> (Some 1) (Some 1) [] None)
   \<and> RleMask_eq ex_decode (RleMask (ex_rle 2 3 ''06'') (Some 1) (Some 1) [] None)
         (RleMask (ex_rle 2 3 ''06'') (Some 2) (Some 7) [] (Some 7))"
proof -
  have d: "ex_decode (ex_rle 2 3 ''06'')
      = ex_decode \<lparr>rle_size = [2, 3], rle_counts = CountsStr ''06''\<rparr>"
    by (simp add: ex_decode_def ex_rle_def)
  have n: "ex_rle 2 3 ''06'' \<noteq> \<lparr>rle_size = [2, 3], rle_counts = CountsStr ''06''\<rparr>"
    by (simp add: ex_rle_def)
  from RleMask_eq_iff_rle[of ex_decode "ex_rle 2 3 ''06''" "Some 1" "Some 1" "[]" None
        "\<lparr>rle_size = [2, 3], rle_counts = CountsStr ''06''\<rparr>" "Some 1" "Some 1" "[]" None]
    RleMask_eq_iff_rle[of ex_decode "ex_rle 2 3 ''06''" "Some 1" "Some 1" "[]" None
        "ex_rle 2 3 ''06''" "Some 2" "Some 7" "[]" "Some 7"] d n
  show ?thesis by simp
qed

subsection \<open>The label table and the label map\<close>

lemma fold_label_map_append:
  "fold (\<lambda>(idx, cat) m. m(cat_id cat \<mapsto> int idx)) (enumerate n (cs @ [c])) m0
     = (fold (\<lambda>(idx, cat) m. m(cat_id cat \<mapsto> int idx)) (enumerate n cs) m0)
         (cat_id c \<mapsto> int (n + length cs))"
  by (simp add: enumerate_append_eq)

lemma label_map_absent:
  "k \<notin> cat_id ` set cs \<Longrightarrow>
     fold (\<lambda>(idx, cat) m. m(cat_id cat \<mapsto> int idx)) (enumerate n cs) m0 k = m0 k"
  by (induction cs arbitrary: n m0) auto

lemma label_map_present:
  "k \<in> cat_id ` set cs \<Longrightarrow>
     \<exists>i < length cs. fold (\<lambda>(idx, cat) m. m(cat_id cat \<mapsto> int idx)) (enumerate n cs) m0 k
          = Some (int (n + i)) \<and> cat_id (cs ! i) = k"
proof (induction cs arbitrary: m0 rule: rev_induct)
  case Nil
  then show ?case by simp
next
  case (snoc c cs)
  show ?case
  proof (cases "cat_id c = k")
    case True
    then show ?thesis
      unfolding fold_label_map_append
      by (intro exI[of _ "length cs"]) simp
  next
    case False
    with snoc.prems have "k \<in> cat_id ` set cs" by auto
    from snoc.IH[OF this, of m0] obtain i where
      i: "i < length cs"
         "fold (\<lambda>(idx, cat) m. m(cat_id cat \<mapsto> int idx)) (enumerate n cs) m0 k
            = Some (int (n + i))"
         "cat_id (cs ! i) = k" by blast
    with False show ?thesis
      unfolding fold_label_map_append
      by (intro exI[of _ i]) (simp add: nth_append)
  qed
qed

lemma load_label_map_absent:
  "k \<notin> cat_id ` set (cats ld) \<Longrightarrow> snd (load_label_categories ld) k = None"
  by (simp add: load_label_categories_def label_map_absent)

lemma load_label_map_present:
  "k \<in> cat_id ` set (cats ld) \<Longrightarrow>
     \<exists>i < length (cats ld). snd (load_label_categories ld) k = Some (int i)
        \<and> cat_id (cats ld ! i) = k"
  using label_map_present[of k "cats ld" 0 Map.empty]
  by (simp add: load_label_categories_def)

lemma ex_merge_loaders:
  "merge_loaders [ex_subset_both] labels = Some (ex_loader ''from_labels'')"
  "merge_loaders [ex_subset_both] instances = Some (ex_loader ''from_instances'')"
  "merge_loaders [ex_subset_both] person_keypoints = None"
  by (simp_all add: merge_loaders_def ex_subset_both_def)

text \<open>
  C2, as stated: with an \<open>instances\<close> loader and a \<open>labels\<close> loader the label table
  would come from the \<open>instances\<close> loader. It does not: the subset below has both, and
  the table built is the one of the \<open>labels\<close> loader.
\<close>

theorem load_categories_prefers_instances_counterexample:
  "merge_loaders [ex_subset_both] instances = Some (ex_loader ''from_instances'')
   \<and> merge_loaders [ex_subset_both] labels = Some (ex_loader ''from_labels'')
   \<and> label_table (load_categories [ex_subset_both]) = Some [(''from_labels'', [])]
   \<and> label_table (load_categories [ex_subset_both])
       \<noteq> Some (fst (load_label_categories (ex_loader ''from_instances'')))"
  by (simp add: label_table_def load_categories_def merge_loaders_def ex_subset_both_def
      ex_loader_def load_label_categories_def Let_def)

text \<open>
  C2, amended: the label table is built from the first loader present in the order
  \<open>labels\<close>, \<open>instances\<close>, \<open>person_keypoints\<close>. Without a
  \<open>person_keypoints\<close> loader the call cannot raise.
\<close>

theorem load_categories_label_precedence:
  "(merge_loaders subsets person_keypoints = None
      \<longrightarrow> (\<exists>c m. load_categories subsets = Inr (c, m)))
   \<and> (\<forall>c m. load_categories subsets = Inr (c, m) \<longrightarrow>
         cat_label c =
           map_option (\<lambda>l. fst (load_label_categories l))
             (case merge_loaders subsets labels of
                Some l \<Rightarrow> Some l
              | None \<Rightarrow>
                  (case merge_loaders subsets instances of
                     Some l \<Rightarrow> Some l
                   | None \<Rightarrow> merge_loaders subsets person_keypoints)))"
  by (auto simp: load_categories_def Let_def Option.is_none_def
      split: option.splits sum.splits prod.splits)

theorem load_categories_label_precedence_witness:
  "label_table (load_categories [ex_subset_both])
     = Some (fst (load_label_categories (ex_loader ''from_labels'')))"
proof -
  from load_categories_label_precedence[of "[ex_subset_both]"] ex_merge_loaders
  obtain c m where r: "load_categories [ex_subset_both] = Inr (c, m)"
    by blast
  with load_categories_label_precedence[of "[ex_subset_both]"]
  have "cat_label c = Some (fst (load_label_categories (ex_loader ''from_labels'')))"
    by (simp add: ex_merge_loaders)
  with r show ?thesis by (simp add: label_table_def)
qed

text \<open>
  C4. A record whose category id is 0 or absent gets no label. Any other id goes through
  the id-to-index table built when the categories are loaded: an id of the table gives
  the index of a category of that id, and an id absent from the table raises
  \<open>KeyError\<close>. The error is not caught: parsing the record raises for every task that
  reads the label (every task but \<open>captions\<close>), and as a \<open>labels\<close> record it raises
  this very \<open>KeyError\<close>.
\<close>

theorem parse_label_by_table:
  "(a_category_id ann = None \<or> a_category_id ann = Some 0
      \<longrightarrow> parse_label label_map ann = Inr None)
   \<and> (\<forall>c. a_category_id ann = Some c \<and> c \<noteq> 0 \<and> c \<in> cat_id ` set (cats ld) \<longrightarrow>
         (\<exists>i < length (cats ld). cat_id (cats ld ! i) = c
            \<and> parse_label (Some (snd (load_label_categories ld))) ann = Inr (Some (int i))))
   \<and> (\<forall>c. a_category_id ann = Some c \<and> c \<noteq> 0 \<and> c \<notin> cat_id ` set (cats ld) \<longrightarrow>
         parse_label (Some (snd (load_label_categories ld))) ann = Inl (KeyError (KInt c))
         \<and> parse_annotation mu mg (Some (snd (load_label_categories ld))) ann labels
               parsed info = Inl (KeyError (KInt c))
         \<and> (\<forall>ty. ty \<noteq> captions \<longrightarrow>
               (\<exists>e. parse_annotation mu mg (Some (snd (load_label_categories ld))) ann ty
                      parsed info = Inl e)))"
proof (intro conjI allI impI)
  assume "a_category_id ann = None \<or> a_category_id ann = Some 0"
  then show "parse_label label_map ann = Inr None"
    by (auto simp: parse_label_def)
next
  fix c
  assume a: "a_category_id ann = Some c \<and> c \<noteq> 0 \<and> c \<in> cat_id ` set (cats ld)"
  with load_label_map_present[of c ld] obtain i where
    "i < length (cats ld)" "snd (load_label_categories ld) c = Some (int i)"
    "cat_id (cats ld ! i) = c" by blast
  with a show "\<exists>i < length (cats ld). cat_id (cats ld ! i) = c
      \<and> parse_label (Some (snd (load_label_categories ld))) ann = Inr (Some (int i))"
    by (intro exI[of _ i]) (simp add: parse_label_def)
next
  fix c
  assume a: "a_category_id ann = Some c \<and> c \<noteq> 0 \<and> c \<notin> cat_id ` set (cats ld)"
  with load_label_map_absent[of c ld]
  show pl: "parse_label (Some (snd (load_label_categories ld))) ann = Inl (KeyError (KInt c))"
    by (simp add: parse_label_def)
  then show "parse_annotation mu mg (Some (snd (load_label_categories ld))) ann labels
      parsed info = Inl (KeyError (KInt c))"
    by (simp add: parse_annotation_def)
  fix ty :: CocoTask
  assume "ty \<noteq> captions"
  with pl show "\<exists>e. parse_annotation mu mg (Some (snd (load_label_categories ld))) ann ty
      parsed info = Inl e"
    by (cases ty)
       (auto simp: parse_annotation_def parse_instances_def parse_person_keypoints_def
          split: option.splits sum.splits prod.splits)
qed

theorem parse_label_by_table_witness:
  "parse_label (Some (snd (load_label_categories ex_coco))) (ex_ann (Some 0)) = Inr None
   \<and> parse_label (Some (snd (load_label_categories ex_coco))) (ex_ann None) = Inr None
   \<and> (\<exists>i < length (cats ex_coco). cat_id (cats ex_coco ! i) = 2
        \<and> parse_label (Some (snd (load_label_categories ex_coco))) (ex_ann (Some 2))
            = Inr (Some (int i)))
   \<and> parse_label (Some (snd (load_label_categories ex_coco))) (ex_ann (Some 7))
       = Inl (KeyError (KInt 7))
   \<and> parse_annotation ex_mask_utils False (Some (snd (load_label_categories ex_coco)))
        (ex_ann (Some 7)) labels [] (Some ex_image) = Inl (KeyError (KInt 7))"
proof -
  have ids: "cat_id ` set (cats ex_coco) = {1, 2}"
    by (auto simp: ex_coco_def ex_cats_def)
  have c0: "a_category_id (ex_ann (Some 0)) = Some 0" "a_category_id (ex_ann None) = None"
    and c2: "a_category_id (ex_ann (Some 2)) = Some 2"
    and c7: "a_category_id (ex_ann (Some 7)) = Some 7"
    by (simp_all add: ex_ann_def)
  show ?thesis
    using parse_label_by_table[of "ex_ann (Some 0)" "Some (snd (load_label_categories ex_coco))"
            ex_coco ex_mask_utils False "[]" "Some ex_image"]
          parse_label_by_table[of "ex_ann None" "Some (snd (load_label_categories ex_coco))"
            ex_coco ex_mask_utils False "[]" "Some ex_image"]
          parse_label_by_table[of "ex_ann (Some 2)" "Some (snd (load_label_categories ex_coco))"
            ex_coco ex_mask_utils False "[]" "Some ex_image"]
          parse_label_by_table[of "ex_ann (Some 7)" "Some (snd (load_label_categories ex_coco))"
            ex_coco ex_mask_utils False "[]" "Some ex_image"]
    by (simp add: ids c0 c2 c7)
qed

subsection \<open>Parsing one record\<close>

lemma keypoint_points_from:
  "n mod 3 = 0 \<Longrightarrow>
     map snd (filter (\<lambda>(i, p). i mod 3 \<noteq> 2)
        (enumerate n (concat (map (\<lambda>(x, y, v). [x, y, v]) kps))))
     = concat (map (\<lambda>(x, y, v). [x, y]) kps)"
proof (induction kps arbitrary: n)
  case Nil
  then show ?case by simp
next
  case (Cons k kps)
  obtain x y v where k: "k = (x, y, v)" by (cases k) auto
  from Cons.prems have m: "Suc n mod 3 = 1" "Suc (Suc n) mod 3 = 2" "Suc (Suc (Suc n)) mod 3 = 0"
    by presburger+
  from Cons.IH[OF m(3)] m show ?case
    by (simp add: k)
qed

lemma keypoint_points_triples:
  "keypoint_points (concat (map (\<lambda>(x, y, v). [x, y, v]) kps))
     = concat (map (\<lambda>(x, y, v). [x, y]) kps)"
  unfolding keypoint_points_def by (rule keypoint_points_from) simp

lemma upt_three: "[0..<Suc (Suc (Suc n))] = 0 # 1 # 2 # map (\<lambda>i. i + 3) [0..<n]"
proof -
  have "[0..<Suc (Suc (Suc n))] = 0 # 1 # 2 # [3..<n + 3]"
    by (simp add: upt_rec[of 0] upt_rec[of 1] upt_rec[of 2] upt_rec[of "Suc 0"]
        upt_rec[of "Suc (Suc 0)"] numeral_3_eq_3 numeral_2_eq_2)
  also have "[3..<n + 3] = map (\<lambda>i. i + 3) [0..<n]"
    by (simp add: map_add_upt)
  finally show ?thesis .
qed

lemma slice_third_Cons:
  "slice_from_step 2 3 (x # y # v # rest) = v # slice_from_step 2 3 rest"
proof -
  have p: "\<And>i::nat. (2 \<le> i \<and> (i - 2) mod 3 = 0) = (Suc i mod 3 = 0)"
    by presburger
  have p4: "\<And>i::nat. ((4 + i) mod 3 = 0) = (Suc i mod 3 = 0)"
    by presburger
  show ?thesis
    unfolding slice_from_step_def
    by (simp add: upt_three filter_map comp_def p p4 del: upt_Suc)
qed

lemma keypoint_visibility_triples:
  "keypoint_visibility (concat (map (\<lambda>(x, y, v). [x, y, v]) kps)) = map (\<lambda>(x, y, v). v) kps"
proof (induction kps)
  case Nil
  then show ?case by (simp add: keypoint_visibility_def slice_from_step_def)
next
  case (Cons k kps)
  then show ?case
    by (cases k) (simp add: keypoint_visibility_def slice_third_Cons)
qed

text \<open>
  C5. An \<open>instances\<close> record with a box, a label that parses and the crowd flag is
  decoded as follows. A list of polygons gives one \<open>Polygon\<close> per part, all of the
  group of the record's id, then one merged \<open>Mask\<close> (the RLE union of the parts)
  exactly when merging is enabled, then the \<open>Bbox\<close>. An uncompressed RLE is converted
  to a compressed one first, a compressed RLE is used as it is, and either gives exactly
  one \<open>Mask\<close>, then the \<open>Bbox\<close>. Without a segmentation the \<open>Bbox\<close> alone is
  emitted.
\<close>

theorem parse_instances_emits:
  assumes "a_bbox ann = Some [x, y, w, h]"
    and "parse_label lm ann = Inr lbl"
    and "a_iscrowd ann = Some crowd"
  shows
  "(\<forall>polys. a_segmentation ann = Some (SegPolygons polys) \<and> \<not> mg \<longrightarrow>
      parse_annotation mu mg lm ann instances parsed info =
        Inr (parsed
             @ map (\<lambda>p. PolygonObject p lbl (a_id ann)
                      (crowd_attributes ann crowd) (a_id ann)) polys
             @ [BboxObject_init x y w h lbl (a_id ann)
                  (crowd_attributes ann crowd) (a_id ann)]))
   \<and> (\<forall>polys im rles r.
        a_segmentation ann = Some (SegPolygons polys) \<and> mg \<and> info = Some im
        \<and> frPyObjects mu (PolyObjs polys) (img_height im) (img_width im) = Inr rles
        \<and> merge mu rles = Inr r \<longrightarrow>
      parse_annotation mu mg lm ann instances parsed info =
        Inr (parsed
             @ map (\<lambda>p. PolygonObject p lbl (a_id ann)
                      (crowd_attributes ann crowd) (a_id ann)) polys
             @ [RleMask r lbl (a_id ann)
                  (crowd_attributes ann crowd) (a_id ann),
                BboxObject_init x y w h lbl (a_id ann)
                  (crowd_attributes ann crowd) (a_id ann)]))
   \<and> (\<forall>d cl ih iw r rest.
        a_segmentation ann = Some (SegRle d) \<and> rle_counts d = CountsList cl
        \<and> rle_size d = [ih, iw] \<and> frPyObjects mu (RleObjs [d]) ih iw = Inr (r # rest) \<longrightarrow>
      parse_annotation mu mg lm ann instances parsed info =
        Inr (parsed
             @ [RleMask r lbl (a_id ann)
                  (crowd_attributes ann crowd) (a_id ann),
                BboxObject_init x y w h lbl (a_id ann)
                  (crowd_attributes ann crowd) (a_id ann)]))
   \<and> (\<forall>d. a_segmentation ann = Some (SegRle d) \<and> (\<forall>cl. rle_counts d \<noteq> CountsList cl) \<longrightarrow>
      parse_annotation mu mg lm ann instances parsed info =
        Inr (parsed
             @ [RleMask d lbl (a_id ann)
                  (crowd_attributes ann crowd) (a_id ann),
                BboxObject_init x y w h lbl (a_id ann)
                  (crowd_attributes ann crowd) (a_id ann)]))
   \<and> (a_segmentation ann = None \<longrightarrow>
      parse_annotation mu mg lm ann instances parsed info =
        Inr (parsed
             @ [BboxObject_init x y w h lbl (a_id ann)
                  (crowd_attributes ann crowd) None]))"
proof (intro conjI allI impI)
  fix polys
  assume "a_segmentation ann = Some (SegPolygons polys) \<and> \<not> mg"
  with assms show "parse_annotation mu mg lm ann instances parsed info =
        Inr (parsed
             @ map (\<lambda>p. PolygonObject p lbl (a_id ann)
                      (crowd_attributes ann crowd) (a_id ann)) polys
             @ [BboxObject_init x y w h lbl (a_id ann)
                  (crowd_attributes ann crowd) (a_id ann)])"
    by (simp add: parse_annotation_def parse_instances_def instances_rle_def Let_def)
next
  fix polys im rles r
  assume "a_segmentation ann = Some (SegPolygons polys) \<and> mg \<and> info = Some im
        \<and> frPyObjects mu (PolyObjs polys) (img_height im) (img_width im) = Inr rles
        \<and> merge mu rles = Inr r"
  with assms show "parse_annotation mu mg lm ann instances parsed info =
        Inr (parsed
             @ map (\<lambda>p. PolygonObject p lbl (a_id ann)
                      (crowd_attributes ann crowd) (a_id ann)) polys
             @ [RleMask r lbl (a_id ann)
                  (crowd_attributes ann crowd) (a_id ann),
                BboxObject_init x y w h lbl (a_id ann)
                  (crowd_attributes ann crowd) (a_id ann)])"
    by (simp add: parse_annotation_def parse_instances_def instances_rle_def Let_def)
next
  fix d cl ih iw r rest
  assume "a_segmentation ann = Some (SegRle d) \<and> rle_counts d = CountsList cl
        \<and> rle_size d = [ih, iw] \<and> frPyObjects mu (RleObjs [d]) ih iw = Inr (r # rest)"
  with assms show "parse_annotation mu mg lm ann instances parsed info =
        Inr (parsed
             @ [RleMask r lbl (a_id ann)
                  (crowd_attributes ann crowd) (a_id ann),
                BboxObject_init x y w h lbl (a_id ann)
                  (crowd_attributes ann crowd) (a_id ann)])"
    by (simp add: parse_annotation_def parse_instances_def instances_rle_def py_index_def Let_def)
next
  fix d
  assume "a_segmentation ann = Some (SegRle d) \<and> (\<forall>cl. rle_counts d \<noteq> CountsList cl)"
  with assms show "parse_annotation mu mg lm ann instances parsed info =
        Inr (parsed
             @ [RleMask d lbl (a_id ann)
                  (crowd_attributes ann crowd) (a_id ann),
                BboxObject_init x y w h lbl (a_id ann)
                  (crowd_attributes ann crowd) (a_id ann)])"
    by (cases "rle_counts d")
       (simp_all add: parse_annotation_def parse_instances_def instances_rle_def Let_def)
next
  assume "a_segmentation ann = None"
  with assms show "parse_annotation mu mg lm ann instances parsed info =
        Inr (parsed
             @ [BboxObject_init x y w h lbl (a_id ann)
                  (crowd_attributes ann crowd) None])"
    by (simp add: parse_annotation_def parse_instances_def Let_def)
qed

lemma ex_parse_label:
  "parse_label (Some (snd (load_label_categories ex_coco))) (ex_ann_seg seg) = Inr (Some 1)"
  "parse_label (Some (snd (load_label_categories ex_coco))) (ex_ann (Some 2)) = Inr (Some 1)"
  "parse_label (Some (snd (load_label_categories ex_coco))) (ex_ann_kp bb) = Inr (Some 0)"
  by (simp_all add: parse_label_def load_label_categories_def ex_coco_def ex_cats_def
      ex_ann_seg_def ex_ann_def ex_ann_kp_def)

theorem parse_instances_emits_witness:
  "parse_annotation ex_mask_utils True (Some (snd (load_label_categories ex_coco)))
      (ex_ann_seg (SegPolygons [[PyInt 0, PyInt 0, PyInt 4, PyInt 0, PyInt 4, PyInt 4],
                                [PyInt 5, PyInt 5, PyInt 9, PyInt 5, PyInt 9, PyInt 9]]))
      instances [] (Some ex_image)
    = Inr [PolygonObject [PyInt 0, PyInt 0, PyInt 4, PyInt 0, PyInt 4, PyInt 4] (Some 1)
             (Some 1) [(''is_crowd'', AttrBool False)] (Some 1),
           PolygonObject [PyInt 5, PyInt 5, PyInt 9, PyInt 5, PyInt 9, PyInt 9] (Some 1)
             (Some 1) [(''is_crowd'', AttrBool False)] (Some 1),
           RleMask (ex_rle 50 100 ''merged'') (Some 1) (Some 1)
             [(''is_crowd'', AttrBool False)] (Some 1),
           BboxObject [PyInt 10, PyInt 10, PyInt 30, PyInt 30] (Some 1) (Some 1)
             [(''is_crowd'', AttrBool False)] (Some 1)]
   \<and> parse_annotation ex_mask_utils False (Some (snd (load_label_categories ex_coco)))
      (ex_ann_seg (SegPolygons [[PyInt 0, PyInt 0, PyInt 4, PyInt 0, PyInt 4, PyInt 4]]))
      instances [] (Some ex_image)
    = Inr [PolygonObject [PyInt 0, PyInt 0, PyInt 4, PyInt 0, PyInt 4, PyInt 4] (Some 1)
             (Some 1) [(''is_crowd'', AttrBool False)] (Some 1),
           BboxObject [PyInt 10, PyInt 10, PyInt 30, PyInt 30] (Some 1) (Some 1)
             [(''is_crowd'', AttrBool False)] (Some 1)]
   \<and> parse_annotation ex_mask_utils False (Some (snd (load_label_categories ex_coco)))
      (ex_ann_seg (SegRle \<lparr>rle_size = [50, 100], rle_counts = CountsList [4, 2, 4994]\<rparr>))
      instances [] (Some ex_image)
    = Inr [RleMask (ex_rle 50 100 ''rle'') (Some 1) (Some 1)
             [(''is_crowd'', AttrBool False)] (Some 1),
           BboxObject [PyInt 10, PyInt 10, PyInt 30, PyInt 30] (Some 1) (Some 1)
             [(''is_crowd'', AttrBool False)] (Some 1)]
   \<and> parse_annotation ex_mask_utils False (Some (snd (load_label_categories ex_coco)))
      (ex_ann_seg (SegRle \<lparr>rle_size = [50, 100], rle_counts = CountsStr ''42Q4''\<rparr>))
      instances [] (Some ex_image)
    = Inr [RleMask \<lparr>rle_size = [50, 100], rle_counts = CountsStr ''42Q4''\<rparr> (Some 1) (Some 1)
             [(''is_crowd'', AttrBool False)] (Some 1),
           BboxObject [PyInt 10, PyInt 10, PyInt 30, PyInt 30] (Some 1) (Some 1)
             [(''is_crowd'', AttrBool False)] (Some 1)]
   \<and> parse_annotation ex_mask_utils True (Some (snd (load_label_categories ex_coco)))
      (ex_ann (Some 2)) instances [] (Some ex_image)
    = Inr [BboxObject [PyInt 10, PyInt 10, PyInt 30, PyInt 30] (Some 1) (Some 1)
             [(''is_crowd'', AttrBool False)] None]"
proof -
  have f: "a_bbox (ex_ann_seg seg) = Some [PyInt 10, PyInt 10, PyInt 20, PyInt 20]"
    "a_iscrowd (ex_ann_seg seg) = Some 0" "a_segmentation (ex_ann_seg seg) = Some seg"
    "a_id (ex_ann_seg seg) = Some 1" "crowd_attributes (ex_ann_seg seg) 0 = [(''is_crowd'', AttrBool False)]"
    for seg
    by (simp_all add: ex_ann_seg_def ex_ann_def crowd_attributes_def score_attributes_def)
  have g: "a_bbox (ex_ann (Some 2)) = Some [PyInt 10, PyInt 10, PyInt 20, PyInt 20]"
    "a_iscrowd (ex_ann (Some 2)) = Some 0" "a_segmentation (ex_ann (Some 2)) = None"
    "a_id (ex_ann (Some 2)) = Some 1"
    "crowd_attributes (ex_ann (Some 2)) 0 = [(''is_crowd'', AttrBool False)]"
    by (simp_all add: ex_ann_def crowd_attributes_def score_attributes_def)
  have b: "BboxObject_init (PyInt 10) (PyInt 10) (PyInt 20) (PyInt 20) l i a grp
      = BboxObject [PyInt 10, PyInt 10, PyInt 30, PyInt 30] l i a grp" for l i a grp
    by (simp add: BboxObject_init_def)
  have mu: "frPyObjects ex_mask_utils (PolyObjs polys) (img_height ex_image) (img_width ex_image)
      = Inr (map (\<lambda>p. ex_rle 50 100 ''poly'') polys)"
    "merge ex_mask_utils rles = Inr (ex_rle 50 100 ''merged'')"
    "frPyObjects ex_mask_utils (RleObjs [d]) 50 100 = Inr [ex_rle 50 100 ''rle'']"
    for polys rles d
    by (simp_all add: ex_mask_utils_def ex_image_def)
  note t = parse_instances_emits[OF f(1) ex_parse_label(1) f(2),
      where mu = ex_mask_utils and parsed = "[]" and info = "Some ex_image"]
  show ?thesis
    using t[of "SegPolygons [[PyInt 0, PyInt 0, PyInt 4, PyInt 0, PyInt 4, PyInt 4],
                             [PyInt 5, PyInt 5, PyInt 9, PyInt 5, PyInt 9, PyInt 9]]" True]
      t[of "SegPolygons [[PyInt 0, PyInt 0, PyInt 4, PyInt 0, PyInt 4, PyInt 4]]" False]
      t[of "SegRle \<lparr>rle_size = [50, 100], rle_counts = CountsList [4, 2, 4994]\<rparr>" False]
      t[of "SegRle \<lparr>rle_size = [50, 100], rle_counts = CountsStr ''42Q4''\<rparr>" False]
      parse_instances_emits[OF g(1) ex_parse_label(2) g(2),
        where mu = ex_mask_utils and parsed = "[]" and info = "Some ex_image" and mg = True]
    by (simp add: f g b mu)
qed

text \<open>
  C6. A \<open>person_keypoints\<close> record whose flat keypoint array is
  \<open>x1, y1, v1, ..., xn, yn, vn\<close> and whose label parses gives a \<open>Points\<close>
  annotation: its geometry is the array without every third element, its visibility is
  the sequence of the third elements, of length \<open>n\<close>. A record that also carries a box
  gives a companion \<open>Bbox\<close> after it, and both are of the group of the record's id;
  without a box the \<open>Points\<close> annotation has no group.
\<close>

theorem parse_person_keypoints_emits:
  assumes "a_keypoints ann = Some (concat (map (\<lambda>(x, y, v). [x, y, v]) kps))"
    and "parse_label lm ann = Inr lbl"
  shows
  "length (map (\<lambda>(x, y, v). v) kps) = length kps
   \<and> (a_bbox ann = None \<longrightarrow>
        parse_annotation mu mg lm ann person_keypoints parsed info =
          Inr (parsed
               @ [PointsObject (concat (map (\<lambda>(x, y, v). [x, y]) kps))
                    (map (\<lambda>(x, y, v). v) kps) lbl (a_id ann) (score_attributes ann) None]))
   \<and> (\<forall>bx by bw bh. a_bbox ann = Some [bx, by, bw, bh] \<longrightarrow>
        parse_annotation mu mg lm ann person_keypoints parsed info =
          Inr (parsed
               @ [PointsObject (concat (map (\<lambda>(x, y, v). [x, y]) kps))
                    (map (\<lambda>(x, y, v). v) kps) lbl (a_id ann) (score_attributes ann)
                    (a_id ann),
                  BboxObject_init bx by bw bh lbl None [] (a_id ann)]))"
  using assms
  by (simp add: parse_annotation_def parse_person_keypoints_def keypoint_points_triples
      keypoint_visibility_triples)

theorem parse_person_keypoints_emits_witness:
  "parse_annotation ex_mask_utils False (Some (snd (load_label_categories ex_coco)))
      (ex_ann_kp None) person_keypoints [] (Some ex_image)
    = Inr [PointsObject [PyInt 1, PyInt 2, PyInt 3, PyInt 4] [PyInt 2, PyInt 0]
             (Some 0) (Some 5) [] None]
   \<and> parse_annotation ex_mask_utils False (Some (snd (load_label_categories ex_coco)))
      (ex_ann_kp (Some [PyInt 0, PyInt 0, PyInt 5, PyInt 6])) person_keypoints []
      (Some ex_image)
    = Inr [PointsObject [PyInt 1, PyInt 2, PyInt 3, PyInt 4] [PyInt 2, PyInt 0]
             (Some 0) (Some 5) [] (Some 5),
           BboxObject [PyInt 0, PyInt 0, PyInt 5, PyInt 6] (Some 0) None [] (Some 5)]"
proof -
  have k: "a_keypoints (ex_ann_kp bb)
      = Some (concat (map (\<lambda>(x, y, v). [x, y, v])
                [(PyInt 1, PyInt 2, PyInt 2), (PyInt 3, PyInt 4, PyInt 0)]))"
    "a_bbox (ex_ann_kp bb) = bb" "a_id (ex_ann_kp bb) = Some 5"
    "score_attributes (ex_ann_kp bb) = []" for bb
    by (simp_all add: ex_ann_kp_def score_attributes_def)
  show ?thesis
    using parse_person_keypoints_emits[OF k(1) ex_parse_label(3),
        of None ex_mask_utils False "[]" "Some ex_image"]
      parse_person_keypoints_emits[OF k(1) ex_parse_label(3),
        of "Some [PyInt 0, PyInt 0, PyInt 5, PyInt 6]" ex_mask_utils False "[]" "Some ex_image"]
    by (simp add: k BboxObject_init_def)
qed

subsection \<open>The converters\<close>

lemma py_truediv_by_zero: "py_truediv p (PyInt 0) = Inl ZeroDivisionError"
  by (cases p) simp_all

lemma tf_boxes_zero_width:
  "\<exists>e. tf_boxes label_id_of name_of (PyInt 0) height (box # boxes) = Inl e"
proof (cases "name_of (label box)")
  case (Inl e)
  then show ?thesis by simp
next
  case name: (Inr name)
  show ?thesis
  proof (cases "py_index (points box) 0")
    case (Inl e)
    with name show ?thesis by simp
  next
    case (Inr p0)
    with name show ?thesis by (simp add: py_truediv_by_zero)
  qed
qed

text \<open>
  C10. For an item without an image the record-format converter takes the height and
  the width 0. An item with no bounding box then gets a record with these two values. An
  item with at least one bounding box gets no record: the conversion raises, and when the
  label of the first box resolves and the box has its coordinates, it raises
  \<open>ZeroDivisionError\<close> at the first division by the width.
\<close>

theorem make_tf_example_without_image:
  assumes "\<not> has_image item"
  shows
  "(filter (\<lambda>ann. ann_type_of ann = T_bbox) (item_annotations item) = [] \<longrightarrow>
      make_tf_example dp encode_image item label_id_of name_of save_images =
        Inr [(''image/source_id'', BytesFeature (str_item_id (item_id item))),
             (''image/filename'', BytesFeature (str_item_id (item_id item) @ IMAGE_EXT dp)),
             (''image/height'', Int64Feature 0),
             (''image/width'', Int64Feature 0)])
   \<and> (\<forall>box boxes.
        filter (\<lambda>ann. ann_type_of ann = T_bbox) (item_annotations item) = box # boxes \<longrightarrow>
          (\<exists>e. make_tf_example dp encode_image item label_id_of name_of save_images
                 = Inl e)
          \<and> (\<forall>name p0. name_of (label box) = Inr name
                 \<and> py_index (points box) 0 = Inr p0 \<longrightarrow>
               make_tf_example dp encode_image item label_id_of name_of save_images
                 = Inl ZeroDivisionError))"
proof -
  from assms have img: "item_image item = None"
    by (cases "item_image item") (simp_all add: has_image_def)
  show ?thesis
  proof (intro conjI allI impI)
    assume "filter (\<lambda>ann. ann_type_of ann = T_bbox) (item_annotations item) = []"
    with img show "make_tf_example dp encode_image item label_id_of name_of save_images =
        Inr [(''image/source_id'', BytesFeature (str_item_id (item_id item))),
             (''image/filename'', BytesFeature (str_item_id (item_id item) @ IMAGE_EXT dp)),
             (''image/height'', Int64Feature 0),
             (''image/width'', Int64Feature 0)]"
      by (simp add: make_tf_example_def)
  next
    fix box boxes
    assume b: "filter (\<lambda>ann. ann_type_of ann = T_bbox) (item_annotations item) = box # boxes"
    from tf_boxes_zero_width[of label_id_of name_of "PyInt 0" box boxes]
    obtain e where "tf_boxes label_id_of name_of (PyInt 0) (PyInt 0) (box # boxes) = Inl e"
      by blast
    with img b show "\<exists>e. make_tf_example dp encode_image item label_id_of name_of
        save_images = Inl e"
      by (simp add: make_tf_example_def)
  next
    fix box boxes name p0
    assume b: "filter (\<lambda>ann. ann_type_of ann = T_bbox) (item_annotations item) = box # boxes"
      and l: "name_of (label box) = Inr name \<and> py_index (points box) 0 = Inr p0"
    then have "tf_boxes label_id_of name_of (PyInt 0) (PyInt 0) (box # boxes)
        = Inl ZeroDivisionError"
      by (simp add: py_truediv_by_zero)
    with img b show "make_tf_example dp encode_image item label_id_of name_of save_images
        = Inl ZeroDivisionError"
      by (simp add: make_tf_example_def)
  qed
qed

theorem make_tf_example_without_image_witness:
  "make_tf_example ex_detection_path (\<lambda>img fmt. []) (ex_item\<lparr>item_image := None\<rparr>)
      (map_label_id [(''cat'', []), (''dog'', [])] [(''cat'', 1), (''dog'', 2)])
      (get_label [(''cat'', []), (''dog'', [])]) True = Inl ZeroDivisionError
   \<and> make_tf_example ex_detection_path (\<lambda>img fmt. [])
        (ex_item\<lparr>item_image := None, item_annotations := []\<rparr>)
        (map_label_id [(''cat'', []), (''dog'', [])] [(''cat'', 1), (''dog'', 2)])
        (get_label [(''cat'', []), (''dog'', [])]) True
      = Inr [(''image/source_id'', BytesFeature ''1''),
             (''image/filename'', BytesFeature ''1.jpg''),
             (''image/height'', Int64Feature 0),
             (''image/width'', Int64Feature 0)]"
proof -
  have n: "\<not> has_image (ex_item\<lparr>item_image := None\<rparr>)"
    "\<not> has_image (ex_item\<lparr>item_image := None, item_annotations := []\<rparr>)"
    by (simp_all add: has_image_def)
  have s: "str_int 1 = ''1''"
    by code_simp
  have g: "get_label [(''cat'', []), (''dog'', [])] (Some 1) = Inr ''dog''"
    by (simp add: get_label_def py_index_def)
  have p: "py_index [PyInt 10, PyInt 10, PyInt 30, PyInt 30] 0 = Inr (PyInt 10)"
    by (simp add: py_index_def)
  show ?thesis
    using make_tf_example_without_image[OF n(1), of ex_detection_path "\<lambda>img fmt. []"
        "map_label_id [(''cat'', []), (''dog'', [])] [(''cat'', 1), (''dog'', 2)]"
        "get_label [(''cat'', []), (''dog'', [])]" True]
      make_tf_example_without_image[OF n(2), of ex_detection_path "\<lambda>img fmt. []"
        "map_label_id [(''cat'', []), (''dog'', [])] [(''cat'', 1), (''dog'', 2)]"
        "get_label [(''cat'', []), (''dog'', [])]" True]
    by (simp add: ex_item_def ex_detection_path_def s g p)
qed

lemma bind_err_Inr_iff: "bind_err m f = Inr y \<longleftrightarrow> (\<exists>x. m = Inr x \<and> f x = Inr y)"
  by (cases m) auto

lemma bind_err_Inr_id: "bind_err m Inr = m"
  by (cases m) auto

lemma tf_subsets_Nil: "tf_subsets dp default_name enc sv ex dir [] = Inr"
  by (rule ext) simp

lemma yolo_subsets_Nil: "yolo_subsets yp si e0 sv ex dir [] = Inr"
  by (rule ext) simp

lemma subsets_or_default_empty: "ext_subsets ex = [] \<Longrightarrow> subsets_or_default ex = [None]"
  by (simp add: subsets_or_default_def)

lemma tf_examples_length:
  "tf_examples dp enc lc ids sv its = Inr recs \<Longrightarrow> length recs = length its"
proof (induction its arbitrary: recs)
  case Nil
  then show ?case by simp
next
  case (Cons it its)
  then show ?case by (auto simp: bind_err_Inr_iff)
qed

lemma tf_subset_record_files:
  assumes "tf_subset dp enc sv dir name d log = Inr log'"
  shows "\<exists>records. log' = log @ [WriteText (osp_join dir (LABELMAP_FILE dp))
             (concat (map (\<lambda>(l, idx).
                   ''item {'' @ NL @ TAB @ ''id: '' @ str_int idx @ NL
                   @ TAB @ ''name: '' @ [CHR 0x27] @ l @ [CHR 0x27] @ NL
                   @ ''}'' @ NL @ NL)
                (fold (\<lambda>(idx, l) d. dict_set (fst l) (1 + int idx) d)
                   (enumerate 0 (the (cat_label (ds_categories d)))) []))),
           WriteRecords (osp_join dir (name @ ''.tfrecord'')) records]
       \<and> length records = length (ds_iter d)"
  using assms
  by (auto simp: tf_subset_def Let_def bind_err_Inr_iff tf_examples_length
      split: option.splits)

lemma yolo_subset_result:
  assumes "yolo_subset si e0 sv dir name d st = Inr s"
  shows "y_subset_lists s = dict_set name (name @ ''.txt'') (y_subset_lists st)
     \<and> y_warnings s = y_warnings st"
  using assms
  by (auto simp: yolo_subset_def Let_def bind_err_Inr_iff split: prod.splits)

text \<open>
  C7. For an extractor that declares no subset both converters go through exactly one
  subset, the whole extractor under the default subset name of the format. The
  record-format converter, when it succeeds, has then written exactly one record file,
  named after the default subset name, with one record per item of the extractor. The
  line-format converter, when it succeeds, has listed exactly one subset, the default
  one, and has warned about none.
\<close>

theorem zero_subsets_default_subset:
  assumes "ext_subsets ex = []"
  shows
  "DetectionApiConverter_call dp default_name enc sv ex dir
     = tf_subset dp enc sv dir default_name (ext_dataset ex) [MakeDirs dir]
   \<and> (\<forall>log. DetectionApiConverter_call dp default_name enc sv ex dir = Inr log \<longrightarrow>
         (\<exists>records. record_files log = [(osp_join dir (default_name @ ''.tfrecord''), records)]
            \<and> length records = length (ds_iter (ext_dataset ex))))
   \<and> yolo_subsets yp si e0 sv ex dir (subsets_or_default ex) st
       = yolo_subset si e0 sv dir (DEFAULT_SUBSET_NAME yp) (ext_dataset ex) st
   \<and> (\<forall>s. YoloConverter_call yp si e0 sv ex dir = Inr s \<longrightarrow>
         y_subset_lists s = [(DEFAULT_SUBSET_NAME yp, DEFAULT_SUBSET_NAME yp @ ''.txt'')]
         \<and> y_warnings s = [])"
proof -
  have c: "DetectionApiConverter_call dp default_name enc sv ex dir
     = tf_subset dp enc sv dir default_name (ext_dataset ex) [MakeDirs dir]"
    using assms
    by (simp add: DetectionApiConverter_call_def subsets_or_default_empty tf_subsets_Nil
        bind_err_Inr_id)
  have r: "\<forall>log. DetectionApiConverter_call dp default_name enc sv ex dir = Inr log \<longrightarrow>
         (\<exists>records. record_files log = [(osp_join dir (default_name @ ''.tfrecord''), records)]
            \<and> length records = length (ds_iter (ext_dataset ex)))"
  proof (intro allI impI)
    fix log
    assume "DetectionApiConverter_call dp default_name enc sv ex dir = Inr log"
    with c have "tf_subset dp enc sv dir default_name (ext_dataset ex) [MakeDirs dir] = Inr log"
      by simp
    from tf_subset_record_files[OF this]
    show "\<exists>records. record_files log = [(osp_join dir (default_name @ ''.tfrecord''), records)]
        \<and> length records = length (ds_iter (ext_dataset ex))"
      by auto
  qed
  have y: "yolo_subsets yp si e0 sv ex dir (subsets_or_default ex) st
       = yolo_subset si e0 sv dir (DEFAULT_SUBSET_NAME yp) (ext_dataset ex) st"
    using assms by (simp add: subsets_or_default_empty yolo_subsets_Nil bind_err_Inr_id)
  have w: "\<forall>s. YoloConverter_call yp si e0 sv ex dir = Inr s \<longrightarrow>
         y_subset_lists s = [(DEFAULT_SUBSET_NAME yp, DEFAULT_SUBSET_NAME yp @ ''.txt'')]
         \<and> y_warnings s = []"
  proof (intro allI impI)
    fix s
    assume a: "YoloConverter_call yp si e0 sv ex dir = Inr s"
    then obtain lc where lc: "cat_label (ds_categories (ext_dataset ex)) = Some lc"
      by (auto simp: YoloConverter_call_def split: option.splits)
    with a assms obtain s0 st0 where
      s0: "yolo_subset si e0 sv dir (DEFAULT_SUBSET_NAME yp) (ext_dataset ex) st0 = Inr s0"
      and st0: "y_subset_lists st0 = []" "y_warnings st0 = []"
      and s: "y_subset_lists s = y_subset_lists s0" "y_warnings s = y_warnings s0"
      by (auto simp: YoloConverter_call_def Let_def subsets_or_default_empty bind_err_Inr_iff
          yolo_subsets_Nil bind_err_Inr_id)
    from yolo_subset_result[OF s0] st0 s
    show "y_subset_lists s = [(DEFAULT_SUBSET_NAME yp, DEFAULT_SUBSET_NAME yp @ ''.txt'')]
        \<and> y_warnings s = []"
      by simp
  qed
  from c r y w show ?thesis by blast
qed

theorem zero_subsets_default_subset_witness:
  "(\<exists>log records.
      DetectionApiConverter_call ex_detection_path ''default'' (\<lambda>img fmt. []) False
        (ex_extractor []) ''out'' = Inr log
      \<and> record_files log = [(''out/default.tfrecord'', records)] \<and> length records = 1)
   \<and> (\<exists>s. YoloConverter_call ex_yolo_path (\<lambda>p i. None) (\<lambda>p. False) False
             (ex_extractor []) ''out'' = Inr s
        \<and> y_subset_lists s = [(''train'', ''train.txt'')] \<and> y_warnings s = [])"
proof -
  have h: "ext_subsets (ex_extractor []) = []"
    by (simp add: ex_extractor_def)
  have "\<not> isl (DetectionApiConverter_call ex_detection_path ''default'' (\<lambda>img fmt. []) False
      (ex_extractor []) ''out'')"
    by code_simp
  then obtain log where log: "DetectionApiConverter_call ex_detection_path ''default''
      (\<lambda>img fmt. []) False (ex_extractor []) ''out'' = Inr log"
    by (cases "DetectionApiConverter_call ex_detection_path ''default'' (\<lambda>img fmt. []) False
      (ex_extractor []) ''out''") auto
  have "\<not> isl (YoloConverter_call ex_yolo_path (\<lambda>p i. None) (\<lambda>p. False) False
      (ex_extractor []) ''out'')"
    by code_simp
  then obtain s where s: "YoloConverter_call ex_yolo_path (\<lambda>p i. None) (\<lambda>p. False) False
      (ex_extractor []) ''out'' = Inr s"
    by (cases "YoloConverter_call ex_yolo_path (\<lambda>p i. None) (\<lambda>p. False) False
      (ex_extractor []) ''out''") auto
  have p: "osp_join ''out'' ''default.tfrecord'' = ''out/default.tfrecord''"
    by code_simp
  have n: "length (ds_iter (ext_dataset (ex_extractor []))) = 1"
    by (simp add: ex_extractor_def ex_dataset_def)
  have d: "DEFAULT_SUBSET_NAME ex_yolo_path = ''train''"
    by (simp add: ex_yolo_path_def)
  note t = zero_subsets_default_subset[OF h, of ex_detection_path "''default''"
      "\<lambda>img fmt. []" False "''out''" ex_yolo_path "\<lambda>p i. None" "\<lambda>p. False" ex_yolo_state]
  from t log obtain records where
    "record_files log = [(osp_join ''out'' (''default'' @ ''.tfrecord''), records)]"
    "length records = length (ds_iter (ext_dataset (ex_extractor [])))"
    by blast
  with log p n have A: "\<exists>log records.
      DetectionApiConverter_call ex_detection_path ''default'' (\<lambda>img fmt. []) False
        (ex_extractor []) ''out'' = Inr log
      \<and> record_files log = [(''out/default.tfrecord'', records)] \<and> length records = 1"
    by (intro exI[of _ log] exI[of _ records]) simp
  from t s have "y_subset_lists s
      = [(DEFAULT_SUBSET_NAME ex_yolo_path, DEFAULT_SUBSET_NAME ex_yolo_path @ ''.txt'')]
      \<and> y_warnings s = []"
    by blast
  with s d have B: "\<exists>s. YoloConverter_call ex_yolo_path (\<lambda>p i. None) (\<lambda>p. False) False
             (ex_extractor []) ''out'' = Inr s
        \<and> y_subset_lists s = [(''train'', ''train.txt'')] \<and> y_warnings s = []"
    by (intro exI[of _ s]) simp
  from A B show ?thesis by (rule conjI)
qed

lemma yolo_subset_same_files:
  assumes "y_log st = y_log st'" and "y_subset_lists st = y_subset_lists st'"
  shows "files_of (yolo_subset si e0 sv dir name d st)
     = files_of (yolo_subset si e0 sv dir name d st')"
proof (cases "yolo_items si e0 sv (osp_join dir (''obj_'' @ name @ ''_data'')) (ds_iter d)
    (y_log st' @ [MakeDirs (osp_join dir (''obj_'' @ name @ ''_data''))], [])")
  case (Inl e)
  with assms show ?thesis by (simp add: yolo_subset_def Let_def)
next
  case (Inr r)
  with assms show ?thesis by (cases r) (simp add: yolo_subset_def Let_def)
qed

lemma yolo_subsets_same_files:
  assumes "y_log st = y_log st'" and "y_subset_lists st = y_subset_lists st'"
  shows "files_of
           (yolo_subsets yp si e0 sv ex dir names st)
     = files_of
           (yolo_subsets yp si e0 sv ex dir (filter (accepted yp) names) st')"
  using assms
proof (induction names arbitrary: st st')
  case Nil
  then show ?case by simp
next
  case (Cons n names)
  have step: "files_of
        (bind_err (yolo_subset si e0 sv dir name d st)
           (yolo_subsets yp si e0 sv ex dir names))
     = files_of
        (bind_err (yolo_subset si e0 sv dir name d st')
           (yolo_subsets yp si e0 sv ex dir (filter (accepted yp) names)))" for name d
  proof -
    from yolo_subset_same_files[OF Cons.prems, of si e0 sv dir name d]
    show ?thesis
    proof (cases "yolo_subset si e0 sv dir name d st")
      case (Inl e)
      with yolo_subset_same_files[OF Cons.prems, of si e0 sv dir name d]
      show ?thesis by (cases "yolo_subset si e0 sv dir name d st'") auto
    next
      case (Inr s)
      with yolo_subset_same_files[OF Cons.prems, of si e0 sv dir name d]
      obtain s' where s': "yolo_subset si e0 sv dir name d st' = Inr s'"
        "y_log s = y_log s'" "y_subset_lists s = y_subset_lists s'"
        by (cases "yolo_subset si e0 sv dir name d st'") auto
      with Inr Cons.IH[OF s'(2,3)] show ?thesis by simp
    qed
  qed
  show ?case
  proof (cases "accepted yp n")
    case False
    then have "truthy n" "the n \<notin> set (SUBSET_NAMES yp)"
      by (auto simp: accepted_def)
    with False Cons.IH[of "st\<lparr>y_warnings := y_warnings st @ [skip_warning yp (the n)]\<rparr>" st']
      Cons.prems
    show ?thesis by simp
  next
    case True
    show ?thesis
    proof (cases "truthy n")
      case False
      with True step show ?thesis by simp
    next
      case t: True
      with True have m: "the n \<in> set (SUBSET_NAMES yp)"
        by (simp add: accepted_def)
      show ?thesis
      proof (cases "ext_get_subset ex (the n)")
        case (Inl e)
        with True t m show ?thesis by simp
      next
        case (Inr d)
        with True t m step show ?thesis by simp
      qed
    qed
  qed
qed

lemma yolo_subsets_warnings:
  "yolo_subsets yp si e0 sv ex dir names st = Inr s \<Longrightarrow>
     y_warnings s = y_warnings st
       @ map (\<lambda>n. skip_warning yp (the n)) (filter (\<lambda>n. \<not> accepted yp n) names)"
proof (induction names arbitrary: st)
  case Nil
  then show ?case by simp
next
  case (Cons n names)
  show ?case
  proof (cases "accepted yp n")
    case False
    then have "truthy n" "the n \<notin> set (SUBSET_NAMES yp)"
      by (auto simp: accepted_def)
    with False Cons.prems
      Cons.IH[of "st\<lparr>y_warnings := y_warnings st @ [skip_warning yp (the n)]\<rparr>"]
    show ?thesis by simp
  next
    case True
    with Cons.prems obtain name d s1 where
      s1: "yolo_subset si e0 sv dir name d st = Inr s1"
        "yolo_subsets yp si e0 sv ex dir names s1 = Inr s"
      by (auto simp: accepted_def bind_err_Inr_iff split: if_splits)
    from yolo_subset_result[OF s1(1)] Cons.IH[OF s1(2)] True
    show ?thesis by simp
  qed
qed

text \<open>
  C8. A subset whose name is not empty and not in the whitelist of the line-format
  converter is passed over with one warning, and the loop goes on with the remaining
  names. The files written and the subsets listed are those of the same run without
  the names passed over, failures included, so such a name never makes the conversion
  fail. The warnings of a run that succeeds are exactly those of the names passed
  over, in order: nothing else is skipped with a warning. Whatever an accepted subset
  raises (from \<open>get_subset\<close> or from its export) ends the loop with that exception.
\<close>

theorem unknown_subset_skipped:
  "(truthy n \<and> the n \<notin> set (SUBSET_NAMES yp) \<longrightarrow>
      yolo_subsets yp si e0 sv ex dir (n # rest) st
        = yolo_subsets yp si e0 sv ex dir rest
            (st\<lparr>y_warnings := y_warnings st @ [skip_warning yp (the n)]\<rparr>))
   \<and> files_of
        (yolo_subsets yp si e0 sv ex dir names st)
      = files_of
        (yolo_subsets yp si e0 sv ex dir (filter (accepted yp) names) st)
   \<and> (\<forall>s. yolo_subsets yp si e0 sv ex dir names st = Inr s \<longrightarrow>
         y_warnings s = y_warnings st
           @ map (\<lambda>n. skip_warning yp (the n)) (filter (\<lambda>n. \<not> accepted yp n) names))
   \<and> (\<forall>s. YoloConverter_call yp si e0 sv ex dir = Inr s \<longrightarrow>
         y_warnings s
           = map (\<lambda>n. skip_warning yp (the n))
               (filter (\<lambda>n. \<not> accepted yp n) (ext_subsets ex)))
   \<and> (\<forall>e. truthy n \<and> the n \<in> set (SUBSET_NAMES yp)
          \<and> ext_get_subset ex (the n) = Inl e \<longrightarrow>
        yolo_subsets yp si e0 sv ex dir (n # rest) st = Inl e)
   \<and> (\<forall>e d. truthy n \<and> the n \<in> set (SUBSET_NAMES yp)
          \<and> ext_get_subset ex (the n) = Inr d
          \<and> yolo_subset si e0 sv dir (the n) d st = Inl e \<longrightarrow>
        yolo_subsets yp si e0 sv ex dir (n # rest) st = Inl e)
   \<and> (\<forall>e. \<not> truthy n
          \<and> yolo_subset si e0 sv dir (DEFAULT_SUBSET_NAME yp) (ext_dataset ex) st = Inl e \<longrightarrow>
        yolo_subsets yp si e0 sv ex dir (n # rest) st = Inl e)"
proof -
  have call: "\<forall>s. YoloConverter_call yp si e0 sv ex dir = Inr s \<longrightarrow>
         y_warnings s
           = map (\<lambda>n. skip_warning yp (the n))
               (filter (\<lambda>n. \<not> accepted yp n) (ext_subsets ex))"
  proof (intro allI impI)
    fix s
    assume a: "YoloConverter_call yp si e0 sv ex dir = Inr s"
    then obtain st0 s0 where
      s0: "yolo_subsets yp si e0 sv ex dir (subsets_or_default ex) st0 = Inr s0"
      and w: "y_warnings st0 = []" "y_warnings s = y_warnings s0"
      by (auto simp: YoloConverter_call_def Let_def bind_err_Inr_iff split: option.splits)
    have "filter (\<lambda>n. \<not> accepted yp n) (subsets_or_default ex)
        = filter (\<lambda>n. \<not> accepted yp n) (ext_subsets ex)"
      by (simp add: subsets_or_default_def accepted_def)
    with yolo_subsets_warnings[OF s0] w
    show "y_warnings s = map (\<lambda>n. skip_warning yp (the n))
        (filter (\<lambda>n. \<not> accepted yp n) (ext_subsets ex))"
      by simp
  qed
  from call yolo_subsets_same_files[of st st yp si e0 sv ex dir names]
    yolo_subsets_warnings[of yp si e0 sv ex dir names st]
  show ?thesis by simp
qed

theorem unknown_subset_skipped_witness:
  "yolo_subsets ex_yolo_path (\<lambda>p i. None) (\<lambda>p. False) False
      (ex_extractor [Some ''foo'', Some ''train'']) ''out'' [Some ''foo'', Some ''train'']
      ex_yolo_state
    = yolo_subsets ex_yolo_path (\<lambda>p i. None) (\<lambda>p. False) False
        (ex_extractor [Some ''foo'', Some ''train'']) ''out'' [Some ''train'']
        (ex_yolo_state\<lparr>y_warnings := [skip_warning ex_yolo_path ''foo'']\<rparr>)
   \<and> files_of (yolo_subsets ex_yolo_path (\<lambda>p i. None) (\<lambda>p. False) False
        (ex_extractor [Some ''foo'', Some ''train'']) ''out'' [Some ''foo'', Some ''train'']
        ex_yolo_state)
      = files_of (yolo_subsets ex_yolo_path (\<lambda>p i. None) (\<lambda>p. False) False
          (ex_extractor [Some ''foo'', Some ''train'']) ''out'' [Some ''train''] ex_yolo_state)
   \<and> (\<exists>s. YoloConverter_call ex_yolo_path (\<lambda>p i. None) (\<lambda>p. False) False
          (ex_extractor [Some ''foo'', Some ''train'']) ''out'' = Inr s
        \<and> y_subset_lists s = [(''train'', ''train.txt'')]
        \<and> y_warnings s = [skip_warning ex_yolo_path ''foo''])
   \<and> yolo_subsets ex_yolo_path (\<lambda>p i. None) (\<lambda>p. False) False
        (ex_extractor [Some ''valid'']) ''out'' [Some ''valid''] ex_yolo_state
      = Inl (KeyError (KStr ''valid''))"
proof -
  have a: "accepted ex_yolo_path (Some ''train'')" "\<not> accepted ex_yolo_path (Some ''foo'')"
    "''foo'' \<notin> set (SUBSET_NAMES ex_yolo_path)" "''valid'' \<in> set (SUBSET_NAMES ex_yolo_path)"
    by (simp_all add: accepted_def ex_yolo_path_def)
  have w: "y_warnings ex_yolo_state = []"
    by (simp add: ex_yolo_state_def)
  have g: "ext_get_subset (ex_extractor [Some ''valid'']) ''valid''
      = Inl (KeyError (KStr ''valid''))"
    "ext_subsets (ex_extractor [Some ''foo'', Some ''train'']) = [Some ''foo'', Some ''train'']"
    by (simp_all add: ex_extractor_def)
  have "\<not> isl (YoloConverter_call ex_yolo_path (\<lambda>p i. None) (\<lambda>p. False) False
      (ex_extractor [Some ''foo'', Some ''train'']) ''out'')"
    by code_simp
  then obtain s where s: "YoloConverter_call ex_yolo_path (\<lambda>p i. None) (\<lambda>p. False) False
      (ex_extractor [Some ''foo'', Some ''train'']) ''out'' = Inr s"
    by (cases "YoloConverter_call ex_yolo_path (\<lambda>p i. None) (\<lambda>p. False) False
      (ex_extractor [Some ''foo'', Some ''train'']) ''out''") auto
  have "case YoloConverter_call ex_yolo_path (\<lambda>p i. None) (\<lambda>p. False)
      False (ex_extractor [Some ''foo'', Some ''train'']) ''out'' of
        Inl e \<Rightarrow> False | Inr s \<Rightarrow> y_subset_lists s = [(''train'', ''train.txt'')]"
    by code_simp
  with s have l: "y_subset_lists s = [(''train'', ''train.txt'')]"
    by simp
  note t = unknown_subset_skipped[of "Some ''foo''" ex_yolo_path "\<lambda>p i. None" "\<lambda>p. False"
      False "ex_extractor [Some ''foo'', Some ''train'']" "''out''" "[Some ''train'']"
      ex_yolo_state "[Some ''foo'', Some ''train'']"]
  have pre: "truthy (Some ''foo'') \<and> the (Some ''foo'') \<notin> set (SUBSET_NAMES ex_yolo_path)"
    using a by simp
  from t[THEN conjunct1, THEN mp, OF pre]
  have A: "yolo_subsets ex_yolo_path (\<lambda>p i. None) (\<lambda>p. False) False
      (ex_extractor [Some ''foo'', Some ''train'']) ''out'' [Some ''foo'', Some ''train'']
      ex_yolo_state
    = yolo_subsets ex_yolo_path (\<lambda>p i. None) (\<lambda>p. False) False
        (ex_extractor [Some ''foo'', Some ''train'']) ''out'' [Some ''train'']
        (ex_yolo_state\<lparr>y_warnings := [skip_warning ex_yolo_path ''foo'']\<rparr>)"
    by (simp only: option.sel w append_Nil)
  have f: "filter (accepted ex_yolo_path) [Some ''foo'', Some ''train''] = [Some ''train'']"
    using a by simp
  from t[THEN conjunct2, THEN conjunct1]
  have B: "files_of (yolo_subsets ex_yolo_path (\<lambda>p i. None) (\<lambda>p. False) False
        (ex_extractor [Some ''foo'', Some ''train'']) ''out'' [Some ''foo'', Some ''train'']
        ex_yolo_state)
      = files_of (yolo_subsets ex_yolo_path (\<lambda>p i. None) (\<lambda>p. False) False
          (ex_extractor [Some ''foo'', Some ''train'']) ''out'' [Some ''train''] ex_yolo_state)"
    by (simp only: f)
  have fw: "map (\<lambda>n. skip_warning ex_yolo_path (the n))
      (filter (\<lambda>n. \<not> accepted ex_yolo_path n)
         (ext_subsets (ex_extractor [Some ''foo'', Some ''train''])))
     = [skip_warning ex_yolo_path ''foo'']"
    using a by (simp add: g)
  from t[THEN conjunct2, THEN conjunct2, THEN conjunct2, THEN conjunct1, THEN spec,
      THEN mp, OF s]
  have "y_warnings s = [skip_warning ex_yolo_path ''foo'']"
    by (simp only: fw)
  with s l have C: "\<exists>s. YoloConverter_call ex_yolo_path (\<lambda>p i. None) (\<lambda>p. False) False
          (ex_extractor [Some ''foo'', Some ''train'']) ''out'' = Inr s
        \<and> y_subset_lists s = [(''train'', ''train.txt'')]
        \<and> y_warnings s = [skip_warning ex_yolo_path ''foo'']"
    by (intro exI[of _ s] conjI)
  have pre2: "truthy (Some ''valid'') \<and> the (Some ''valid'') \<in> set (SUBSET_NAMES ex_yolo_path)
      \<and> ext_get_subset (ex_extractor [Some ''valid'']) (the (Some ''valid''))
          = Inl (KeyError (KStr ''valid''))"
    using a g by simp
  from unknown_subset_skipped[of "Some ''valid''" ex_yolo_path "\<lambda>p i. None" "\<lambda>p. False"
      False "ex_extractor [Some ''valid'']" "''out''" "[]" ex_yolo_state "[]",
      THEN conjunct2, THEN conjunct2, THEN conjunct2, THEN conjunct2, THEN conjunct1,
      THEN spec, THEN mp, OF pre2]
  have D: "yolo_subsets ex_yolo_path (\<lambda>p i. None) (\<lambda>p. False) False
        (ex_extractor [Some ''valid'']) ''out'' [Some ''valid''] ex_yolo_state
      = Inl (KeyError (KStr ''valid''))" .
  from A B C D show ?thesis by (intro conjI)
qed

text \<open>
  C3. The scenario of the spec: the categories \<open>cat\<close> (id 1) and \<open>dog\<close> (id 2), one
  image of width 100 and height 50 and one instance annotation with the box
  \<open>[10, 10, 20, 20]\<close> and the category id 2, read from
  \<open>ds/annotations/instances_train.json\<close>. The annotation text of the item is the one
  line \<open>1 0.200000 0.400000 0.200000 0.400000\<close>: the label index, then the centre and
  the size of the box relative to the image, with six decimals. The line-format
  converter writes it to the annotation file of the item.
\<close>

theorem yolo_scenario_line:
  "bind_err (CocoExtractor_init (\<lambda>p. ex_coco) ''ds/annotations/instances_train.json''
              instances False)
     (\<lambda>self. bind_err (get ex_mask_utils ex_fs self 1 ''train'') yolo_annotation)
   = Inr (''1 0.200000 0.400000 0.200000 0.400000'' @ NL)
   \<and> bind_err (CocoExtractor_init (\<lambda>p. ex_coco) ''ds/annotations/instances_train.json''
              instances False)
     (\<lambda>self. bind_err (YoloConverter_call ex_yolo_path (\<lambda>p i. None) (\<lambda>p. False) False
                         (CocoExtractor_view ex_mask_utils ex_fs self) ''out'')
                (\<lambda>st. Inr (y_log st, y_warnings st)))
   = Inr ([MakeDirs ''out'',
          WriteText ''out/obj.names'' (''cat'' @ NL @ ''dog'' @ NL),
          MakeDirs ''out/obj_train_data'',
          WriteText ''out/obj_train_data/1.txt''
            (''1 0.200000 0.400000 0.200000 0.400000'' @ NL),
          WriteText ''out/train.txt'' (''data/obj_train_data/1.jpg'' @ NL),
          WriteText ''out/obj.data''
            (''classes = 2'' @ NL @ ''train = data/train.txt'' @ NL
             @ ''names = data/obj.names'' @ NL @ ''backup = backup/'' @ NL)], [])"
  by code_simp

subsection \<open>The importer\<close>

lemma find_subsets_loop_append:
  "find_subsets_loop ann_dir (pre @ files) subsets
     = bind_err (find_subsets_loop ann_dir pre subsets) (find_subsets_loop ann_dir files)"
proof (induction pre arbitrary: subsets)
  case Nil
  then show ?case by simp
next
  case (Cons f pre)
  show ?case
  proof (cases "endswith (osp_join ann_dir f) ''.json''")
    case False
    with Cons.IH show ?thesis by simp
  next
    case True
    show ?thesis
    proof (cases "py_index (rsplit1 (fst (splitext f)) ''_'') 0")
      case (Inl e)
      with True show ?thesis by (simp add: Let_def)
    next
      case tok: (Inr tok)
      show ?thesis
      proof (cases "CocoTask_of tok")
        case None
        with True tok show ?thesis by (simp add: Let_def)
      next
        case (Some task)
        show ?thesis
        proof (cases "py_index (rsplit1 (fst (splitext f)) ''_'') 1")
          case (Inl e)
          with True tok Some show ?thesis by (simp add: Let_def)
        next
          case (Inr name)
          with True tok Some Cons.IH show ?thesis by (simp add: Let_def)
        qed
      qed
    qed
  qed
qed

lemma vocabulary: "join '', '' (map task_name all_tasks)
    = ''instances, person_keypoints, captions, labels, image_info''"
  by (simp add: all_tasks_def)

text \<open>
  C9. An annotation file (a name ending in \<open>.json\<close>) whose task prefix, the part of
  the name before the last underscore, is not a task name makes the importer raise, once
  the files listed before it have been taken in: \<open>find_subsets\<close> and with it the
  importer raise an exception whose message contains the offending prefix and the whole
  task vocabulary. The file \<open>foo_train.json\<close> does so; the file
  \<open>labels_train.json\<close> is assigned the task \<open>labels\<close> and the subset
  \<open>train\<close>.
\<close>

theorem unknown_task_prefix_raises:
  "(\<forall>pre f post taken tok.
       listdir (osp_join dataset_dir ANNOTATIONS_DIR) = Some (pre @ f # post)
       \<and> find_subsets_loop (osp_join dataset_dir ANNOTATIONS_DIR) pre [] = Inr taken
       \<and> endswith (osp_join (osp_join dataset_dir ANNOTATIONS_DIR) f) ''.json''
       \<and> py_index (rsplit1 (fst (splitext f)) ''_'') 0 = Inr tok
       \<and> tok \<notin> task_name ` set all_tasks \<longrightarrow>
         find_subsets listdir dataset_dir
           = Inl (Exception (''Unknown subset type '' @ tok @ '', only known are: ''
                    @ ''instances, person_keypoints, captions, labels, image_info''))
         \<and> CocoImporter_call listdir dataset_dir
           = Inl (Exception (''Unknown subset type '' @ tok @ '', only known are: ''
                    @ ''instances, person_keypoints, captions, labels, image_info'')))
   \<and> find_subsets (ex_listdir [''foo_train.json'']) ''ds''
       = Inl (Exception (''Unknown subset type foo, only known are: ''
                @ ''instances, person_keypoints, captions, labels, image_info''))
   \<and> find_subsets (ex_listdir [''labels_train.json'']) ''ds''
       = Inr [(''train'', [(labels, ''ds/annotations/labels_train.json'')])]
   \<and> CocoImporter_call (ex_listdir [''labels_train.json'']) ''ds''
       = Inr [\<lparr>src_name = ''labels_train'', src_url = ''ds/annotations/labels_train.json'',
               src_format = ''coco_labels''\<rparr>]"
proof -
  have gen: "\<forall>pre f post taken tok.
       listdir (osp_join dataset_dir ANNOTATIONS_DIR) = Some (pre @ f # post)
       \<and> find_subsets_loop (osp_join dataset_dir ANNOTATIONS_DIR) pre [] = Inr taken
       \<and> endswith (osp_join (osp_join dataset_dir ANNOTATIONS_DIR) f) ''.json''
       \<and> py_index (rsplit1 (fst (splitext f)) ''_'') 0 = Inr tok
       \<and> tok \<notin> task_name ` set all_tasks \<longrightarrow>
         find_subsets listdir dataset_dir
           = Inl (Exception (''Unknown subset type '' @ tok @ '', only known are: ''
                    @ ''instances, person_keypoints, captions, labels, image_info''))
         \<and> CocoImporter_call listdir dataset_dir
           = Inl (Exception (''Unknown subset type '' @ tok @ '', only known are: ''
                    @ ''instances, person_keypoints, captions, labels, image_info''))"
  proof (intro allI impI)
    fix pre f post taken tok
    assume a: "listdir (osp_join dataset_dir ANNOTATIONS_DIR) = Some (pre @ f # post)
       \<and> find_subsets_loop (osp_join dataset_dir ANNOTATIONS_DIR) pre [] = Inr taken
       \<and> endswith (osp_join (osp_join dataset_dir ANNOTATIONS_DIR) f) ''.json''
       \<and> py_index (rsplit1 (fst (splitext f)) ''_'') 0 = Inr tok
       \<and> tok \<notin> task_name ` set all_tasks"
    then have "filter (\<lambda>t. task_name t = tok) all_tasks = []"
      by (auto simp: filter_empty_conv)
    then have none: "CocoTask_of tok = None"
      by (simp add: CocoTask_of_def)
    with a have "find_subsets_loop (osp_join dataset_dir ANNOTATIONS_DIR) (f # post) taken
        = Inl (Exception (unknown_subset_type tok))"
      by (simp add: Let_def)
    with a have f: "find_subsets listdir dataset_dir = Inl (Exception (unknown_subset_type tok))"
      by (simp add: find_subsets_def Let_def find_subsets_loop_append)
    then show "find_subsets listdir dataset_dir
           = Inl (Exception (''Unknown subset type '' @ tok @ '', only known are: ''
                    @ ''instances, person_keypoints, captions, labels, image_info''))
         \<and> CocoImporter_call listdir dataset_dir
           = Inl (Exception (''Unknown subset type '' @ tok @ '', only known are: ''
                    @ ''instances, person_keypoints, captions, labels, image_info''))"
      by (simp add: CocoImporter_call_def unknown_subset_type_def vocabulary)
  qed
  have foo: "find_subsets (ex_listdir [''foo_train.json'']) ''ds''
       = Inl (Exception (''Unknown subset type foo, only known are: ''
                @ ''instances, person_keypoints, captions, labels, image_info''))"
    by code_simp
  have lab: "find_subsets (ex_listdir [''labels_train.json'']) ''ds''
       = Inr [(''train'', [(labels, ''ds/annotations/labels_train.json'')])]"
    by code_simp
  have imp: "CocoImporter_call (ex_listdir [''labels_train.json'']) ''ds''
       = Inr [\<lparr>src_name = ''labels_train'', src_url = ''ds/annotations/labels_train.json'',
               src_format = ''coco_labels''\<rparr>]"
    by code_simp
  from gen foo lab imp show ?thesis by (intro conjI)
qed

theorem unknown_task_prefix_raises_witness:
  "find_subsets (ex_listdir [''labels_train.json'', ''notes.txt'', ''foo_train.json'',
       ''instances_train.json'']) ''ds''
     = Inl (Exception (''Unknown subset type foo, only known are: ''
              @ ''instances, person_keypoints, captions, labels, image_info''))
   \<and> CocoImporter_call (ex_listdir [''labels_train.json'', ''notes.txt'', ''foo_train.json'',
       ''instances_train.json'']) ''ds''
     = Inl (Exception (''Unknown subset type foo, only known are: ''
              @ ''instances, person_keypoints, captions, labels, image_info''))"
proof -
  have d: "osp_join ''ds'' ANNOTATIONS_DIR = ''ds/annotations''"
    by code_simp
  have pre: "ex_listdir [''labels_train.json'', ''notes.txt'', ''foo_train.json'',
       ''instances_train.json''] (osp_join ''ds'' ANNOTATIONS_DIR)
      = Some ([''labels_train.json'', ''notes.txt''] @ ''foo_train.json''
               # [''instances_train.json''])
    \<and> find_subsets_loop (osp_join ''ds'' ANNOTATIONS_DIR) [''labels_train.json'', ''notes.txt''] []
      = Inr [(''train'', [(labels, ''ds/annotations/labels_train.json'')])]
    \<and> endswith (osp_join (osp_join ''ds'' ANNOTATIONS_DIR) ''foo_train.json'') ''.json''
    \<and> py_index (rsplit1 (fst (splitext ''foo_train.json'')) ''_'') 0 = Inr ''foo''
    \<and> ''foo'' \<notin> task_name ` set all_tasks"
    by code_simp
  from unknown_task_prefix_raises[of "ex_listdir [''labels_train.json'', ''notes.txt'',
      ''foo_train.json'', ''instances_train.json'']" "''ds''", THEN conjunct1, THEN spec,
      THEN spec, THEN spec, THEN spec, THEN spec, THEN mp, OF pre]
  show ?thesis by simp
qed

end
